theory Spec2Isabelle
  imports Complex_Main
begin

section \<open>Python values shared by both model files\<close>

text \<open>
  Exceptions are values: every function that can raise returns \<open>py_error + 'a\<close>, with
  \<open>Inl\<close> for the exception. An \<open>AssertionError\<close> carries the message of the
  \<^verbatim>\<open>assert\<close> statement that raised it, so that the assertion sites stay apart.
\<close>

datatype py_error =
    AssertionError string
  | AttributeError string
  | IndexError
  | OverflowError string
  | RuntimeError string
  | TypeError
  | ValueError string
  | ZeroDivisionError

text \<open>Sequencing of two steps, the first of which may raise.\<close>

definition bind_err :: "py_error + 'a \<Rightarrow> ('a \<Rightarrow> py_error + 'b) \<Rightarrow> py_error + 'b" where
  "bind_err r f = (case r of Inl e \<Rightarrow> Inl e | Inr x \<Rightarrow> f x)"

text \<open>\<^verbatim>\<open>str(n)\<close> for a non-negative integer, as the f-strings of the assertions print it.\<close>

definition digit :: "nat \<Rightarrow> char" where
  "digit d = ''0123456789'' ! d"

fun str_nat :: "nat \<Rightarrow> string" where
  "str_nat n = (if n < 10 then [digit n] else str_nat (n div 10) @ [digit (n mod 10)])"

text \<open>
  A tensor of rank two, shape \<open>(b, n)\<close>: the batch is the list of rows, and
  \<open>shape1\<close> is \<^verbatim>\<open>t.shape[1]\<close>, kept beside the rows because an empty batch still has
  a width. Token tensors hold \<open>int\<close> (torch.long), embedded sequences hold one vector
  of type \<open>'v\<close> per position.
\<close>

record 'e tensor2 =
  shape1 :: nat
  rows :: "'e list list"

definition rectangular :: "'e tensor2 \<Rightarrow> bool" where
  "rectangular t = list_all (\<lambda>r. length r = shape1 t) (rows t)"

text \<open>
  Python's normalisation of a slice bound against a length \<open>n\<close> (step one): a negative
  bound counts from the end and is clamped at zero, a bound past the end is clamped at
  \<open>n\<close>.
\<close>

definition slice_index :: "nat \<Rightarrow> int \<Rightarrow> nat" where
  "slice_index n i = (if i < 0 then nat (max 0 (int n + i)) else min n (nat i))"

text \<open>\<^verbatim>\<open>t[:, i:]\<close> and \<^verbatim>\<open>t[:, :i]\<close> on a rank-two tensor.\<close>

definition slice_from :: "'e tensor2 \<Rightarrow> int \<Rightarrow> 'e tensor2" where
  "slice_from t i =
     \<lparr>shape1 = shape1 t - slice_index (shape1 t) i,
      rows = map (\<lambda>r. drop (slice_index (length r) i) r) (rows t)\<rparr>"

definition slice_upto :: "'e tensor2 \<Rightarrow> int \<Rightarrow> 'e tensor2" where
  "slice_upto t i =
     \<lparr>shape1 = slice_index (shape1 t) i,
      rows = map (\<lambda>r. take (slice_index (length r) i) r) (rows t)\<rparr>"

text \<open>
  The elements of a long tensor are 64-bit signed integers: \<open>int64\<close> is their range and
  \<open>wrap64\<close> the result of an addition or division that leaves it.
\<close>

definition int64 :: "int \<Rightarrow> bool" where
  "int64 x = (- (2 ^ 63) \<le> x \<and> x < 2 ^ 63)"

definition wrap64 :: "int \<Rightarrow> int" where
  "wrap64 x = (x + 2 ^ 63) mod 2 ^ 64 - 2 ^ 63"

text \<open>
  A Python int passed where torch expects a double is rounded to the nearest double,
  ties to the even significand: exact up to \<open>2 ^ 53\<close> in absolute value, and beyond
  that a multiple of \<open>2 ^ k\<close>, where \<open>k\<close> is the number of bits above 53.
\<close>

fun floor_log2 :: "nat \<Rightarrow> nat" where
  "floor_log2 n = (if n < 2 then 0 else Suc (floor_log2 (n div 2)))"

declare floor_log2.simps [simp del]

definition double_of_int :: "int \<Rightarrow> int" where
  "double_of_int v =
     (let a = abs v in
      if a \<le> 2 ^ 53 then v
      else
        let k = floor_log2 (nat a) - 52;
            q = a div 2 ^ k;
            r = a mod 2 ^ k;
            h = 2 ^ (k - 1);
            q' = (if r > h \<or> (r = h \<and> odd q) then q + 1 else q)
        in sgn v * (q' * 2 ^ k))"

text \<open>
  \<^verbatim>\<open>F.pad(input, (l, r), value=v)\<close> on a long tensor: \<open>l\<close> copies of the fill value
  before and \<open>r\<close> copies after the last dimension of every row. \<^verbatim>\<open>F.pad\<close> takes the
  value as a double and converts it to the element type of the tensor: a Python int
  that rounds to \<open>2 ^ 1024\<close> or beyond has no double and raises OverflowError, and a
  double outside the 64-bit range raises RuntimeError.
\<close>

definition pad_value :: "int \<Rightarrow> py_error + int" where
  "pad_value v =
     (let d = double_of_int v in
      if 2 ^ 1024 \<le> abs d then Inl (OverflowError ''int too large to convert to float'')
      else if int64 d then Inr d
      else Inl (RuntimeError ''value cannot be converted to type int64_t without overflow''))"

definition pad_last :: "int tensor2 \<Rightarrow> nat \<Rightarrow> nat \<Rightarrow> int \<Rightarrow> py_error + int tensor2" where
  "pad_last t l r v =
     bind_err (pad_value v) (\<lambda>v.
       Inr \<lparr>shape1 = l + shape1 t + r,
            rows = map (\<lambda>row. replicate l v @ row @ replicate r v) (rows t)\<rparr>)"

section \<open>unified\_voice\_bilevel.py: UnifiedGptVoice\<close>

subsection \<open>Hyperparameters\<close>

text \<open>The attributes that \<^verbatim>\<open>UnifiedGptVoice.__init__\<close> stores from its arguments.\<close>

record gpt_config =
  number_text_tokens :: int
  start_text_token :: int
  stop_text_token :: int
  number_mel_codes :: int
  start_mel_token :: int
  stop_mel_token :: int
  max_mel_tokens :: int
  max_symbols_per_phrase :: int
  max_total_tokens :: int
  model_dim :: int
  max_conditioning_inputs :: int
  mel_length_compression :: int
  max_conditioning_length :: int
  top_dim_reduction :: int

text \<open>
  The keyword arguments of the constructor: the stored ones and those that only size
  the layers. \<open>default_args\<close> are the defaults of the signature.
\<close>

record init_args = gpt_config +
  top_encoder_layers :: int
  top_layers :: int
  bottom_layers :: int
  heads :: int
  checkpointing :: bool

definition default_args :: init_args where
  "default_args =
     \<lparr>number_text_tokens = 256, start_text_token = 255, stop_text_token = 0,
      number_mel_codes = 8194, start_mel_token = 8192, stop_mel_token = 8193,
      max_mel_tokens = 250, max_symbols_per_phrase = 120, max_total_tokens = 370,
      model_dim = 512, max_conditioning_inputs = 3, mel_length_compression = 1024,
      max_conditioning_length = 60, top_dim_reduction = 16,
      top_encoder_layers = 4, top_layers = 8, bottom_layers = 8, heads = 8,
      checkpointing = True\<rparr>"

definition default_config :: gpt_config where
  "default_config = gpt_config.truncate default_args"

subsection \<open>build\_aligned\_inputs\_and\_targets\<close>

definition build_aligned_inputs_and_targets ::
  "int tensor2 \<Rightarrow> int \<Rightarrow> int \<Rightarrow> py_error + (int tensor2 \<times> int tensor2)" where
  "build_aligned_inputs_and_targets input start_token stop_token =
     bind_err (pad_last input 1 0 start_token) (\<lambda>inp.
     bind_err (pad_last input 0 1 stop_token) (\<lambda>tar.
       Inr (inp, tar)))"

subsection \<open>set\_mel\_padding\<close>

text \<open>
  \<^verbatim>\<open>row[s:] = v\<close>: every position from the normalised start on is overwritten.
\<close>

definition fill_from :: "int list \<Rightarrow> int \<Rightarrow> int \<Rightarrow> int list" where
  "fill_from row s v =
     (let k = slice_index (length row) s in take k row @ replicate (length row - k) v)"

text \<open>
  The loop \<^verbatim>\<open>for b in range(len(mel_lengths))\<close>, entered at index \<open>b\<close> with the
  lengths still to visit. \<open>w\<close> is \<^verbatim>\<open>mel_input_tokens.shape[-1]\<close>. \<^verbatim>\<open>mel_lengths[b] + 1\<close>
  is an addition of 64-bit integers. Indexing row \<open>b\<close> of a batch that has no such row
  raises IndexError, and a Python int outside the 64-bit range cannot be stored in a long
  tensor.
\<close>

fun set_mel_padding_loop ::
  "int \<Rightarrow> nat \<Rightarrow> nat \<Rightarrow> int list \<Rightarrow> int list list \<Rightarrow> py_error + int list list" where
  "set_mel_padding_loop stop w b [] rs = Inr rs"
| "set_mel_padding_loop stop w b (l # ls) rs =
     (let actual_end = wrap64 (l + 1) in
      if actual_end < int w then
        (if b < length rs
         then
           (if int64 stop
            then set_mel_padding_loop stop w (Suc b) ls
                   (rs[b := fill_from (rs ! b) actual_end stop])
            else Inl (RuntimeError ''Overflow when unpacking long''))
         else Inl IndexError)
      else set_mel_padding_loop stop w (Suc b) ls rs)"

text \<open>
  \<^verbatim>\<open>wav_lengths // self.mel_length_compression\<close> divides every element of a long tensor
  by a Python int, which must fit 64 bits: floor division (Python's rounding, which torch
  follows since 1.13; on non-negative lengths and a positive divisor it agrees with
  truncation). Dividing an element by zero raises \<^verbatim>\<open>RuntimeError: ZeroDivisionError\<close>.
\<close>

definition torch_floordiv :: "int list \<Rightarrow> int \<Rightarrow> py_error + int list" where
  "torch_floordiv xs d =
     (if \<not> int64 d then Inl (RuntimeError ''Overflow when unpacking long'')
      else if xs \<noteq> [] \<and> d = 0 then Inl (RuntimeError ''ZeroDivisionError'')
      else Inr (map (\<lambda>x. wrap64 (x div d)) xs))"

definition set_mel_padding ::
  "gpt_config \<Rightarrow> int tensor2 \<Rightarrow> int list \<Rightarrow> py_error + int tensor2" where
  "set_mel_padding cfg mel_input_tokens wav_lengths =
     bind_err (torch_floordiv wav_lengths (mel_length_compression cfg)) (\<lambda>mel_lengths.
     bind_err (set_mel_padding_loop (stop_mel_token cfg) (shape1 mel_input_tokens) 0 mel_lengths
                 (rows mel_input_tokens)) (\<lambda>rs.
       Inr (mel_input_tokens\<lparr>rows := rs\<rparr>)))"

text \<open>
  The tensor argument is a reference: the method writes through it and returns the
  same reference. A store maps references to tensors; only the cell of the argument
  changes.
\<close>

type_synonym ref = nat
type_synonym store = "ref \<Rightarrow> int tensor2 option"

definition set_mel_padding_inplace ::
  "gpt_config \<Rightarrow> store \<Rightarrow> ref \<Rightarrow> int list \<Rightarrow> py_error + (ref \<times> store)" where
  "set_mel_padding_inplace cfg st mel_input_tokens wav_lengths =
     (case st mel_input_tokens of
        None \<Rightarrow> Inl TypeError
      | Some t \<Rightarrow>
          (case set_mel_padding cfg t wav_lengths of
             Inl e \<Rightarrow> Inl e
           | Inr t' \<Rightarrow> Inr (mel_input_tokens, st(mel_input_tokens := Some t'))))"

subsection \<open>Construction of the layer graph\<close>

text \<open>
  The layers are objects of torch and of the transformers package; only what
  \<^verbatim>\<open>__init__\<close> passes to their constructors is kept. \<open>Instance\<close> is an object of a
  class of this file, with the submodules it registered.
\<close>

record gpt2_config =
  vocab_size :: int
  n_positions :: int
  n_ctx :: int
  n_embd :: int
  n_layer :: int
  n_head :: int
  gradient_checkpointing :: bool
  use_cache :: bool

datatype module =
    Conv1d int int int int int
  | AttentionBlock int int bool
  | Embedding int int
  | LayerNorm int
  | Linear int int
  | GPT2Model gpt2_config "string list"
  | Sequential "module list"
  | Instance string "(string \<times> module) list"

text \<open>
  Modelled from torch.nn.Module, which is not part of the repository: an object has
  no \<^verbatim>\<open>_modules\<close> dictionary (\<open>None\<close>) until \<^verbatim>\<open>nn.Module.__init__\<close> has run, and
  \<^verbatim>\<open>nn.Module.__setattr__\<close> of a Module value raises AttributeError on such an object;
  otherwise it registers the value under the attribute's name.
\<close>

type_synonym module_dict = "(string \<times> module) list option"

definition nn_Module_init :: module_dict where
  "nn_Module_init = Some []"

definition nn_Module_setattr :: "module_dict \<Rightarrow> string \<Rightarrow> module \<Rightarrow> py_error + module_dict" where
  "nn_Module_setattr self name value =
     (case self of
        None \<Rightarrow> Inl (AttributeError ''cannot assign module before Module.__init__() call'')
      | Some ms \<Rightarrow> Inr (Some (filter (\<lambda>(k, _). k \<noteq> name) ms @ [(name, value)])))"

definition registered :: "module_dict \<Rightarrow> (string \<times> module) list" where
  "registered self = (case self of None \<Rightarrow> [] | Some ms \<Rightarrow> ms)"

text \<open>
  \<^verbatim>\<open>ConditioningEncoder.__init__\<close> (lines 21 to 34) calls \<^verbatim>\<open>super().__init__()\<close>
  first. The body of a Sequential is \<^verbatim>\<open>range(attn_blocks)\<close> many blocks. The constructors
  of the layers themselves are taken to return, as they do on the positive sizes of the
  default arguments.
\<close>

definition ConditioningEncoder_init :: "int \<Rightarrow> int \<Rightarrow> int \<Rightarrow> int \<Rightarrow> bool \<Rightarrow> py_error + module" where
  "ConditioningEncoder_init spec_dim embedding_dim attn_blocks num_attn_heads do_checkpointing =
     (let self = nn_Module_init in
      bind_err (nn_Module_setattr self ''init'' (Conv1d spec_dim embedding_dim 1 0 1)) (\<lambda>self.
        let attn = replicate (nat attn_blocks)
                     (AttentionBlock embedding_dim num_attn_heads do_checkpointing) in
        bind_err (nn_Module_setattr self ''attn'' (Sequential attn)) (\<lambda>self.
          Inr (Instance ''ConditioningEncoder'' (registered self)))))"

text \<open>
  \<^verbatim>\<open>int(log(dim_reduction, 2))\<close>: math.log raises ValueError outside its domain;
  elsewhere the result is read as the exact floor of the binary logarithm.
\<close>

definition int_log2 :: "int \<Rightarrow> py_error + nat" where
  "int_log2 x = (if x \<le> 0 then Inl (ValueError ''math domain error'') else Inr (floor_log2 (nat x)))"

text \<open>
  \<^verbatim>\<open>TopEncoder.__init__\<close> (lines 43 to 51) has no \<^verbatim>\<open>super().__init__()\<close> call: its
  first statement assigns a Conv1d to an attribute of the object as Python allocated it.
\<close>

definition TopEncoder_init :: "int \<Rightarrow> int \<Rightarrow> int \<Rightarrow> bool \<Rightarrow> int \<Rightarrow> py_error + module" where
  "TopEncoder_init layers dim' hds do_checkpointing dim_reduction =
     (let self = None in
      bind_err (nn_Module_setattr self ''init'' (Conv1d dim' dim' 1 0 1)) (\<lambda>self.
      bind_err (int_log2 dim_reduction) (\<lambda>k.
        let reduction_layers =
              concat (replicate k [AttentionBlock dim' hds do_checkpointing, Conv1d dim' dim' 3 1 2]) in
        bind_err (nn_Module_setattr self ''reduction_layers'' (Sequential reduction_layers)) (\<lambda>self.
          let actual_layers = replicate (nat layers) (AttentionBlock dim' hds do_checkpointing) in
          bind_err (nn_Module_setattr self ''actual_layers'' (Sequential actual_layers)) (\<lambda>self.
            Inr (Instance ''TopEncoder'' (registered self)))))))"

text \<open>Python's \<^verbatim>\<open>//\<close> on ints.\<close>

definition py_floordiv :: "int \<Rightarrow> int \<Rightarrow> py_error + int" where
  "py_floordiv a b = (if b = 0 then Inl ZeroDivisionError else Inr (a div b))"

text \<open>
  \<^verbatim>\<open>UnifiedGptVoice.__init__\<close> (lines 69 to 136), in the order of its statements. The
  plain attributes are the \<open>gpt_config\<close> part of the arguments; the start embedding
  of the top level is a Parameter and the weight initialisation of lines 132 to 136
  changes numbers only, so neither appears among the registered submodules.
  \<^verbatim>\<open>del self.top_gpt.wte\<close> and the replaced \<^verbatim>\<open>wpe\<close> are the names listed with the
  GPT2Model.
\<close>

record unified_gpt_voice =
  config :: gpt_config
  submodules :: "(string \<times> module) list"

definition UnifiedGptVoice_init :: "init_args \<Rightarrow> py_error + unified_gpt_voice" where
  "UnifiedGptVoice_init a =
     (let self = nn_Module_init;
          d = model_dim a in
      bind_err (ConditioningEncoder_init 80 d 6 (heads a) False) (\<lambda>ce.
      bind_err (nn_Module_setattr self ''conditioning_encoder'' ce) (\<lambda>self.
      bind_err (nn_Module_setattr self ''text_embedding'' (Embedding (number_text_tokens a) d)) (\<lambda>self.
      bind_err (nn_Module_setattr self ''text_pos_solo_embedding''
                  (Embedding (max_symbols_per_phrase a + 1) d)) (\<lambda>self.
      bind_err (nn_Module_setattr self ''text_pos_paired_embedding''
                  (Embedding (max_symbols_per_phrase a + 1) d)) (\<lambda>self.
      bind_err (nn_Module_setattr self ''mel_pos_solo_embedding''
                  (Embedding (max_mel_tokens a + 1) d)) (\<lambda>self.
      bind_err (nn_Module_setattr self ''mel_pos_paired_embedding''
                  (Embedding (max_mel_tokens a + 1) d)) (\<lambda>self.
      let seq_length = 2 + max_total_tokens a + max_conditioning_inputs a in
      bind_err (TopEncoder_init (top_encoder_layers a) d (heads a) (checkpointing a)
                  (top_dim_reduction a)) (\<lambda>te.
      bind_err (nn_Module_setattr self ''top_encoder'' te) (\<lambda>self.
      bind_err (py_floordiv seq_length (top_dim_reduction a)) (\<lambda>top_len.
      let top_gpt_config =
            \<lparr>vocab_size = 1, n_positions = top_len, n_ctx = top_len, n_embd = d,
             n_layer = top_layers a, n_head = heads a,
             gradient_checkpointing = checkpointing a, use_cache = \<not> checkpointing a\<rparr> in
      bind_err (nn_Module_setattr self ''top_gpt'' (GPT2Model top_gpt_config [''wte''])) (\<lambda>self.
      let bottom_gpt_config =
            \<lparr>vocab_size = number_mel_codes a, n_positions = seq_length, n_ctx = seq_length,
             n_embd = d, n_layer = bottom_layers a, n_head = heads a,
             gradient_checkpointing = checkpointing a, use_cache = \<not> checkpointing a\<rparr> in
      bind_err (nn_Module_setattr self ''bottom_gpt'' (GPT2Model bottom_gpt_config [''wpe''])) (\<lambda>self.
      bind_err (nn_Module_setattr self ''final_norm'' (LayerNorm d)) (\<lambda>self.
      bind_err (nn_Module_setattr self ''text_head'' (Linear d (number_text_tokens a))) (\<lambda>self.
      bind_err (nn_Module_setattr self ''mel_head'' (Linear d (number_mel_codes a))) (\<lambda>self.
        Inr \<lparr>config = gpt_config.truncate a, submodules = registered self\<rparr>))))))))))))))))"

subsection \<open>The forward passes\<close>

text \<open>
  A tensor of rank three, shape \<open>(b, c, s)\<close>, for the conditioning spectrogram;
  \<open>shape2\<close> is \<^verbatim>\<open>t.shape[-1]\<close>.
\<close>

record 'x tensor3 =
  shape2 :: nat
  channels :: "'x list list list"

text \<open>\<^verbatim>\<open>t[:, :, idx]\<close> for an index tensor, and \<^verbatim>\<open>t[:, :, :i]\<close>.\<close>

definition index_last :: "'x tensor3 \<Rightarrow> nat list \<Rightarrow> 'x tensor3" where
  "index_last t idx =
     \<lparr>shape2 = length idx, channels = map (map (\<lambda>r. map (\<lambda>i. r ! i) idx)) (channels t)\<rparr>"

definition slice_last_upto :: "'x tensor3 \<Rightarrow> int \<Rightarrow> 'x tensor3" where
  "slice_last_upto t i =
     \<lparr>shape2 = slice_index (shape2 t) i,
      channels = map (map (\<lambda>r. take (slice_index (length r) i) r)) (channels t)\<rparr>"

text \<open>
  \<open>randperm\<close> is the value that \<^verbatim>\<open>torch.randperm(shape[-1])\<close> drew: a permutation of
  the positions of the last dimension.
\<close>

definition randomly_permute_conditioning_input ::
  "gpt_config \<Rightarrow> nat list \<Rightarrow> 'x tensor3 \<Rightarrow> 'x tensor3" where
  "randomly_permute_conditioning_input cfg randperm speech_conditioning_input =
     (let cond_input = index_last speech_conditioning_input randperm in
      if int (shape2 cond_input) > max_conditioning_length cfg
      then slice_last_upto cond_input (max_conditioning_length cfg)
      else cond_input)"

text \<open>
  The learned layers, as the functions they compute. Their numerics belong to torch
  and transformers, so they are parameters of the model: \<open>'x\<close> is a spectrogram
  value, \<open>'v\<close> a vector of the model dimension, \<open>'l\<close> a tensor of logits, \<open>'a\<close> an
  attention map. An embedding is its table of vectors; \<open>bottom_gpt\<close> is the last hidden
  state of the GPT2Model called on input embeddings, \<open>bottom_gpt_attentions\<close> its tuple
  of attention maps, one per layer.
\<close>

record ('x, 'v, 'l, 'a) gpt_modules =
  conditioning_encoder :: "'x tensor3 \<Rightarrow> 'v list"
  text_embedding :: "int \<Rightarrow> 'v"
  text_pos_solo_embedding :: "int \<Rightarrow> 'v"
  text_pos_paired_embedding :: "int \<Rightarrow> 'v"
  mel_pos_solo_embedding :: "int \<Rightarrow> 'v"
  mel_pos_paired_embedding :: "int \<Rightarrow> 'v"
  top_encoder :: "'v tensor2 \<Rightarrow> 'v tensor2"
  top_gpt :: "'v tensor2 \<Rightarrow> 'v tensor2"
  top_gpt_start_embedding :: "'v"
  bottom_gpt_wte :: "int \<Rightarrow> 'v"
  bottom_gpt :: "'v tensor2 \<Rightarrow> 'v tensor2"
  bottom_gpt_attentions :: "'v tensor2 \<Rightarrow> 'a list"
  final_norm :: "'v tensor2 \<Rightarrow> 'v tensor2"
  text_head :: "'v tensor2 \<Rightarrow> 'l"
  mel_head :: "'v tensor2 \<Rightarrow> 'l"

text \<open>
  The functions of torch that the forward passes call on floating-point data:
  addition of vectors, \<^verbatim>\<open>permute(0,2,1)\<close> and \<^verbatim>\<open>F.cross_entropy\<close>, which with its
  default reduction returns a scalar of type \<open>'s\<close>.
\<close>

record ('v, 'l, 's) torch_ops =
  vadd :: "'v \<Rightarrow> 'v \<Rightarrow> 'v"
  permute021 :: "'l \<Rightarrow> 'l"
  cross_entropy :: "'l \<Rightarrow> int tensor2 \<Rightarrow> 's"

text \<open>\<^verbatim>\<open>.mean()\<close> of a scalar tensor and \<^verbatim>\<open>.long()\<close> of a long tensor return their argument.\<close>

definition mean0 :: "'s \<Rightarrow> 's" where
  "mean0 x = x"

definition long :: "int tensor2 \<Rightarrow> int tensor2" where
  "long t = t"

text \<open>
  \<^verbatim>\<open>torch.cat(ts, dim=1)\<close>: the rows of the tensors are joined batch element by batch
  element, and tensors of different batch sizes raise RuntimeError.
\<close>

definition cat_dim1 :: "'v tensor2 list \<Rightarrow> py_error + 'v tensor2" where
  "cat_dim1 ts =
     (case ts of
        [] \<Rightarrow> Inl (RuntimeError ''torch.cat(): expected a non-empty list of Tensors'')
      | t # rest \<Rightarrow>
          if list_all (\<lambda>u. length (rows u) = length (rows t)) rest
          then Inr \<lparr>shape1 = sum_list (map shape1 ts),
                    rows = foldl (\<lambda>acc u. map2 (@) acc (rows u)) (rows t) rest\<rparr>
          else Inl (RuntimeError ''Sizes of tensors must match except in dimension 1''))"

text \<open>\<^verbatim>\<open>unsqueeze(1)\<close> of a \<open>(b, d)\<close> tensor, and \<^verbatim>\<open>torch.arange(n)\<close>.\<close>

definition unsqueeze1 :: "'v list \<Rightarrow> 'v tensor2" where
  "unsqueeze1 vs = \<lparr>shape1 = 1, rows = map (\<lambda>v. [v]) vs\<rparr>"

definition arange :: "nat \<Rightarrow> int list" where
  "arange n = map int [0 ..< n]"

text \<open>
  An \<^verbatim>\<open>nn.Embedding(n, dim)\<close> applied to a tensor of indices: an index outside
  \<open>[0, n)\<close> raises IndexError. \<open>embedding\<close> looks up a \<open>(b, n)\<close> tensor,
  \<open>embedding_positions\<close> the indices \<^verbatim>\<open>torch.arange(n)\<close>.
\<close>

definition in_vocabulary :: "int \<Rightarrow> int \<Rightarrow> bool" where
  "in_vocabulary n i = (0 \<le> i \<and> i < n)"

definition embedding :: "int \<Rightarrow> (int \<Rightarrow> 'v) \<Rightarrow> int tensor2 \<Rightarrow> py_error + 'v tensor2" where
  "embedding n table t =
     (if list_all (list_all (in_vocabulary n)) (rows t)
      then Inr \<lparr>shape1 = shape1 t, rows = map (map table) (rows t)\<rparr>
      else Inl IndexError)"

definition embedding_positions :: "int \<Rightarrow> (int \<Rightarrow> 'v) \<Rightarrow> nat \<Rightarrow> py_error + 'v list" where
  "embedding_positions n table k =
     (if list_all (in_vocabulary n) (arange k)
      then Inr (map table (arange k))
      else Inl IndexError)"

text \<open>The sum of a \<open>(b, n, d)\<close> and an \<open>(n, d)\<close> tensor.\<close>

definition add_positions :: "('v \<Rightarrow> 'v \<Rightarrow> 'v) \<Rightarrow> 'v tensor2 \<Rightarrow> 'v list \<Rightarrow> 'v tensor2" where
  "add_positions add emb pos = \<lparr>shape1 = shape1 emb, rows = map (\<lambda>r. map2 add r pos) (rows emb)\<rparr>"

text \<open>What \<open>get_logits\<close> returns: the attentions, one tensor of logits, or two.\<close>

datatype ('l, 'a) logits_result =
    Attentions "'a list"
  | First 'l
  | Both 'l 'l

definition get_logits ::
  "('x, 'v, 'l, 'a) gpt_modules \<Rightarrow> ('v, 'l, 's) torch_ops \<Rightarrow> 'v tensor2 \<Rightarrow> 'v tensor2 \<Rightarrow>
   ('v tensor2 \<Rightarrow> 'l) \<Rightarrow> ('v tensor2 \<times> ('v tensor2 \<Rightarrow> 'l)) option \<Rightarrow> bool \<Rightarrow>
   py_error + ('l, 'a) logits_result" where
  "get_logits net ops speech_conditioning_input first_inputs first_head second get_attns =
     bind_err
       (case second of
          Some (second_inputs, _) \<Rightarrow>
            cat_dim1 [speech_conditioning_input, first_inputs, second_inputs]
        | None \<Rightarrow> cat_dim1 [speech_conditioning_input, first_inputs])
       (\<lambda>emb.
          if get_attns then Inr (Attentions (bottom_gpt_attentions net emb))
          else
            let enc = slice_from (bottom_gpt net emb) 1;
                enc = final_norm net enc;
                first_logits = slice_upto enc (int (shape1 first_inputs));
                first_logits = first_head first_logits;
                first_logits = permute021 ops first_logits
            in case second of
                 Some (second_inputs, second_head) \<Rightarrow>
                   let second_logits = slice_from enc (- int (shape1 second_inputs));
                       second_logits = second_head second_logits;
                       second_logits = permute021 ops second_logits
                   in Inr (Both first_logits second_logits)
               | None \<Rightarrow> Inr (First first_logits))"

text \<open>
  A Python variable of \<open>forward\<close> holds logits or, when attentions were asked for, an
  attention map. The tuple assignment \<^verbatim>\<open>a, b = self.get_logits(...)\<close> needs exactly two
  values.
\<close>

datatype ('l, 'a) tensor_value = Logits 'l | AttentionMap 'a

definition unpack2 :: "('l, 'a) logits_result \<Rightarrow> py_error + (('l, 'a) tensor_value \<times> ('l, 'a) tensor_value)" where
  "unpack2 r =
     (case r of
        Both a b \<Rightarrow> Inr (Logits a, Logits b)
      | Attentions [a, b] \<Rightarrow> Inr (AttentionMap a, AttentionMap b)
      | Attentions _ \<Rightarrow> Inl (ValueError ''unpack'')
      | First _ \<Rightarrow> Inl (ValueError ''unpack''))"

datatype ('l, 's, 'a) forward_result =
    ReturnValue "('l, 'a) tensor_value"
  | ReturnLosses 's 's "('l, 'a) tensor_value"

text \<open>
  \<^verbatim>\<open>F.cross_entropy(logits, targets)\<close> over \<open>classes\<close> classes, the output size of the
  head: a target outside \<open>[0, classes)\<close> raises IndexError, unless it is the
  \<^verbatim>\<open>ignore_index\<close> of \<open>-100\<close>.
\<close>

definition valid_target :: "int \<Rightarrow> int \<Rightarrow> bool" where
  "valid_target classes t = (in_vocabulary classes t \<or> t = - 100)"

definition loss_of ::
  "('v, 'l, 's) torch_ops \<Rightarrow> int \<Rightarrow> ('l, 'a) tensor_value \<Rightarrow> int tensor2 \<Rightarrow> py_error + 's" where
  "loss_of ops classes logits targets =
     (case logits of
        Logits l \<Rightarrow>
          if list_all (list_all (valid_target classes)) (rows targets)
          then Inr (cross_entropy ops l targets)
          else Inl IndexError
      | AttentionMap _ \<Rightarrow> Inl TypeError)"

text \<open>The embedded inputs of lines 229, 232 and 234 to 235 (and their solo variants).\<close>

definition encode_conditioning ::
  "('x, 'v, 'l, 'a) gpt_modules \<Rightarrow> gpt_config \<Rightarrow> nat list \<Rightarrow> 'x tensor3 \<Rightarrow> 'v tensor2" where
  "encode_conditioning net cfg randperm speech_conditioning_input =
     (let speech_conditioning_input =
            randomly_permute_conditioning_input cfg randperm speech_conditioning_input
      in unsqueeze1 (conditioning_encoder net speech_conditioning_input))"

definition embed_tokens ::
  "('v, 'l, 's) torch_ops \<Rightarrow> int \<Rightarrow> (int \<Rightarrow> 'v) \<Rightarrow> int \<Rightarrow> (int \<Rightarrow> 'v) \<Rightarrow> int tensor2 \<Rightarrow>
   py_error + 'v tensor2" where
  "embed_tokens ops n table pos_n pos_table inputs =
     bind_err (embedding n table inputs) (\<lambda>emb.
     bind_err (embedding_positions pos_n pos_table (shape1 inputs)) (\<lambda>pos.
       Inr (add_positions (vadd ops) emb pos)))"

definition forward ::
  "('x, 'v, 'l, 'a) gpt_modules \<Rightarrow> ('v, 'l, 's) torch_ops \<Rightarrow> gpt_config \<Rightarrow> nat list \<Rightarrow>
   'x tensor3 \<Rightarrow> int tensor2 \<Rightarrow> int tensor2 \<Rightarrow> int list \<Rightarrow> bool \<Rightarrow> bool \<Rightarrow>
   py_error + ('l, 's, 'a) forward_result" where
  "forward net ops cfg randperm speech_conditioning_input text_inputs mel_inputs wav_lengths
     text_first return_attentions =
     (if \<not> max_mel_tokens cfg \<ge> int (shape1 mel_inputs)
      then Inl (AssertionError (str_nat (shape1 mel_inputs)))
      else if \<not> max_symbols_per_phrase cfg \<ge> int (shape1 text_inputs)
      then Inl (AssertionError (str_nat (shape1 text_inputs)))
      else if \<not> max_total_tokens cfg \<ge> int (shape1 mel_inputs) + int (shape1 text_inputs)
      then Inl (AssertionError (str_nat (shape1 mel_inputs) @ '', '' @ str_nat (shape1 text_inputs)))
      else
        bind_err (set_mel_padding cfg mel_inputs wav_lengths) (\<lambda>mel_inputs.
        let speech_conditioning_input =
              encode_conditioning net cfg randperm speech_conditioning_input in
        bind_err (build_aligned_inputs_and_targets text_inputs
                    (start_text_token cfg) (stop_text_token cfg)) (\<lambda>(text_inputs, text_targets).
        bind_err (embed_tokens ops (number_text_tokens cfg) (text_embedding net)
                    (max_symbols_per_phrase cfg + 1) (text_pos_paired_embedding net)
                    text_inputs) (\<lambda>text_emb.
        bind_err (build_aligned_inputs_and_targets mel_inputs
                    (start_mel_token cfg) (stop_mel_token cfg)) (\<lambda>(mel_inputs, mel_targets).
        bind_err (embed_tokens ops (number_mel_codes cfg) (bottom_gpt_wte net)
                    (max_mel_tokens cfg + 1) (mel_pos_paired_embedding net)
                    mel_inputs) (\<lambda>mel_emb.
        bind_err
          (if text_first
           then bind_err (get_logits net ops speech_conditioning_input text_emb (text_head net)
                            (Some (mel_emb, mel_head net)) return_attentions) unpack2
           else bind_err
                  (bind_err (get_logits net ops speech_conditioning_input mel_emb (mel_head net)
                               (Some (text_emb, text_head net)) return_attentions) unpack2)
                  (\<lambda>(mel_logits, text_logits). Inr (text_logits, mel_logits)))
          (\<lambda>(text_logits, mel_logits).
             if return_attentions then Inr (ReturnValue mel_logits)
             else
               bind_err (loss_of ops (number_text_tokens cfg) text_logits (long text_targets))
                 (\<lambda>loss_text.
               bind_err (loss_of ops (number_mel_codes cfg) mel_logits (long mel_targets))
                 (\<lambda>loss_mel.
                 Inr (ReturnLosses (mean0 loss_text) (mean0 loss_mel) mel_logits))))))))))"

definition first_only :: "('l, 'a) logits_result \<Rightarrow> py_error + ('l, 'a) tensor_value" where
  "first_only r =
     (case r of
        First l \<Rightarrow> Inr (Logits l)
      | Both _ _ \<Rightarrow> Inl TypeError
      | Attentions _ \<Rightarrow> Inl TypeError)"

definition text_forward ::
  "('x, 'v, 'l, 'a) gpt_modules \<Rightarrow> ('v, 'l, 's) torch_ops \<Rightarrow> gpt_config \<Rightarrow> nat list \<Rightarrow>
   'x tensor3 \<Rightarrow> int tensor2 \<Rightarrow> py_error + 's" where
  "text_forward net ops cfg randperm speech_conditioning_input text_inputs =
     (if \<not> max_symbols_per_phrase cfg \<ge> int (shape1 text_inputs)
      then Inl (AssertionError (str_nat (shape1 text_inputs)))
      else
        let speech_conditioning_input =
              encode_conditioning net cfg randperm speech_conditioning_input in
        bind_err (build_aligned_inputs_and_targets text_inputs
                    (start_text_token cfg) (stop_text_token cfg)) (\<lambda>(text_inputs, text_targets).
        bind_err (embed_tokens ops (number_text_tokens cfg) (text_embedding net)
                    (max_symbols_per_phrase cfg + 1) (text_pos_solo_embedding net)
                    text_inputs) (\<lambda>text_emb.
        bind_err (bind_err (get_logits net ops speech_conditioning_input text_emb (text_head net)
                              None False) first_only) (\<lambda>text_logits.
        bind_err (loss_of ops (number_text_tokens cfg) text_logits (long text_targets))
          (\<lambda>loss_text.
          Inr (mean0 loss_text))))))"

definition speech_forward ::
  "('x, 'v, 'l, 'a) gpt_modules \<Rightarrow> ('v, 'l, 's) torch_ops \<Rightarrow> gpt_config \<Rightarrow> nat list \<Rightarrow>
   'x tensor3 \<Rightarrow> int tensor2 \<Rightarrow> int list \<Rightarrow> py_error + 's" where
  "speech_forward net ops cfg randperm speech_conditioning_input mel_inputs wav_lengths =
     (if \<not> max_mel_tokens cfg \<ge> int (shape1 mel_inputs)
      then Inl (AssertionError (str_nat (shape1 mel_inputs)))
      else
        bind_err (set_mel_padding cfg mel_inputs wav_lengths) (\<lambda>mel_inputs.
        let speech_conditioning_input =
              encode_conditioning net cfg randperm speech_conditioning_input in
        bind_err (build_aligned_inputs_and_targets mel_inputs
                    (start_mel_token cfg) (stop_mel_token cfg)) (\<lambda>(mel_inputs, mel_targets).
        bind_err (embed_tokens ops (number_mel_codes cfg) (bottom_gpt_wte net)
                    (max_mel_tokens cfg + 1) (mel_pos_solo_embedding net)
                    mel_inputs) (\<lambda>mel_emb.
        bind_err (bind_err (get_logits net ops speech_conditioning_input mel_emb (mel_head net)
                              None False) first_only) (\<lambda>mel_logits.
        bind_err (loss_of ops (number_mel_codes cfg) mel_logits (long mel_targets))
          (\<lambda>loss_mel.
          Inr (mean0 loss_mel)))))))"

text \<open>
  The inputs that the tensor library accepts along \<open>forward\<close>: tensors of one batch
  size, a conditioning clip of 80 channels with at least one frame and a conditioning
  encoder that returns one vector per clip, tokens inside the vocabularies and below
  \<open>2 ^ 53\<close>, non-negative wav lengths and a positive compression that stay inside 64
  bits, and a sequence that fits the positions of the bottom GPT.
\<close>

definition valid_forward_input ::
  "('x, 'v, 'l, 'a) gpt_modules \<Rightarrow> gpt_config \<Rightarrow> nat list \<Rightarrow> 'x tensor3 \<Rightarrow> int tensor2 \<Rightarrow>
   int tensor2 \<Rightarrow> int list \<Rightarrow> bool" where
  "valid_forward_input net cfg randperm speech_conditioning_input text_inputs mel_inputs wav_lengths =
     (rectangular text_inputs \<and> rectangular mel_inputs
      \<and> length (rows mel_inputs) = length (rows text_inputs)
      \<and> length wav_lengths = length (rows mel_inputs)
      \<and> length (channels speech_conditioning_input) = length (rows text_inputs)
      \<and> list_all (\<lambda>c. length c = 80 \<and> list_all (\<lambda>r. length r = shape2 speech_conditioning_input) c)
           (channels speech_conditioning_input)
      \<and> 0 < shape2 speech_conditioning_input \<and> 0 < max_conditioning_length cfg
      \<and> sort randperm = [0 ..< shape2 speech_conditioning_input]
      \<and> length (conditioning_encoder net
                   (randomly_permute_conditioning_input cfg randperm speech_conditioning_input))
          = length (rows text_inputs)
      \<and> number_text_tokens cfg \<le> 2 ^ 53 \<and> number_mel_codes cfg \<le> 2 ^ 53
      \<and> list_all (list_all (in_vocabulary (number_text_tokens cfg))) (rows text_inputs)
      \<and> in_vocabulary (number_text_tokens cfg) (start_text_token cfg)
      \<and> in_vocabulary (number_text_tokens cfg) (stop_text_token cfg)
      \<and> list_all (list_all (in_vocabulary (number_mel_codes cfg))) (rows mel_inputs)
      \<and> in_vocabulary (number_mel_codes cfg) (start_mel_token cfg)
      \<and> in_vocabulary (number_mel_codes cfg) (stop_mel_token cfg)
      \<and> list_all (\<lambda>w. 0 \<le> w \<and> w < 2 ^ 63 - 1) wav_lengths
      \<and> 0 < mel_length_compression cfg \<and> mel_length_compression cfg < 2 ^ 63
      \<and> int (shape1 text_inputs) + int (shape1 mel_inputs) + 3
           \<le> 2 + max_total_tokens cfg + max_conditioning_inputs cfg)"

subsection \<open>A small instance for evaluation\<close>

text \<open>
  Integer arithmetic in place of the learned layers: an embedding is the token itself,
  the transformer is the identity, a head returns the rows it is given and the loss
  adds up targets and logits. It serves to run the control flow on concrete inputs.
\<close>

definition toy_modules :: "(int, int, int list list, unit) gpt_modules" where
  "toy_modules =
     \<lparr>conditioning_encoder = (\<lambda>t. map (\<lambda>c. 0) (channels t)),
      text_embedding = (\<lambda>i. i),
      text_pos_solo_embedding = (\<lambda>i. 0),
      text_pos_paired_embedding = (\<lambda>i. 0),
      mel_pos_solo_embedding = (\<lambda>i. 0),
      mel_pos_paired_embedding = (\<lambda>i. 0),
      top_encoder = (\<lambda>t. t),
      top_gpt = (\<lambda>t. t),
      top_gpt_start_embedding = 0,
      bottom_gpt_wte = (\<lambda>i. i),
      bottom_gpt = (\<lambda>t. t),
      bottom_gpt_attentions = (\<lambda>t. []),
      final_norm = (\<lambda>t. t),
      text_head = rows,
      mel_head = rows\<rparr>"

definition toy_ops :: "(int, int list list, int) torch_ops" where
  "toy_ops =
     \<lparr>vadd = (+),
      permute021 = (\<lambda>l. l),
      cross_entropy = (\<lambda>l t. sum_list (concat l) + sum_list (concat (rows t)))\<rparr>"

section \<open>transformer\_diffusion8\_mup.py\<close>

subsection \<open>is\_latent and is\_sequence\<close>

text \<open>
  The dtypes of torch, with its own classification: \<^verbatim>\<open>dtype.is_floating_point\<close> holds
  of the four real floating-point types, and the integer types are the five signed and
  unsigned integers. \<^verbatim>\<open>torch.float\<close> is float32 and \<^verbatim>\<open>torch.long\<close> is int64.
\<close>

datatype torch_dtype =
    torch_float16 | torch_bfloat16 | torch_float32 | torch_float64
  | torch_complex64 | torch_complex128
  | torch_uint8 | torch_int8 | torch_int16 | torch_int32 | torch_int64
  | torch_bool

definition torch_float :: torch_dtype where
  "torch_float = torch_float32"

definition torch_long :: torch_dtype where
  "torch_long = torch_int64"

fun is_floating_point :: "torch_dtype \<Rightarrow> bool" where
  "is_floating_point torch_float16 = True"
| "is_floating_point torch_bfloat16 = True"
| "is_floating_point torch_float32 = True"
| "is_floating_point torch_float64 = True"
| "is_floating_point _ = False"

fun is_integer_dtype :: "torch_dtype \<Rightarrow> bool" where
  "is_integer_dtype torch_uint8 = True"
| "is_integer_dtype torch_int8 = True"
| "is_integer_dtype torch_int16 = True"
| "is_integer_dtype torch_int32 = True"
| "is_integer_dtype torch_int64 = True"
| "is_integer_dtype _ = False"

record 'd typed_tensor =
  dtype :: torch_dtype
  storage :: 'd

definition is_latent :: "'d typed_tensor \<Rightarrow> bool" where
  "is_latent t = (dtype t = torch_float)"

definition is_sequence :: "'d typed_tensor \<Rightarrow> bool" where
  "is_sequence t = (dtype t = torch_long)"

subsection \<open>Floating-point numbers\<close>

text \<open>
  A Python float or an element of a float tensor: a finite double, read as the real
  number it stands for, an infinity or a NaN. Only the operations whose result is exact
  are defined here: the product with the integer zero (zero for a finite number, NaN
  otherwise) and the comparison, which is false whenever a NaN is involved. Python's
  \<^verbatim>\<open>max(a, b)\<close> returns \<open>b\<close> when \<open>b > a\<close> and \<open>a\<close> otherwise.
\<close>

datatype pyfloat = Finite real | PosInf | NegInf | NaN



fun float_gt :: "pyfloat \<Rightarrow> pyfloat \<Rightarrow> bool" where
  "float_gt NaN _ = False"
| "float_gt _ NaN = False"
| "float_gt PosInf PosInf = False"
| "float_gt PosInf _ = True"
| "float_gt _ PosInf = False"
| "float_gt NegInf _ = False"
| "float_gt _ NegInf = True"
| "float_gt (Finite a) (Finite b) = (a > b)"



subsection \<open>TransformerDiffusion\<close>

text \<open>
  The functions of torch (and \<^verbatim>\<open>timestep_embedding\<close> of models.diffusion.nn) that the
  diffusion model calls, on tensors of an abstract type \<open>'t\<close>.
\<close>

record 't tensor_fns =
  shape_first :: "'t \<Rightarrow> nat"
  shape_second :: "'t \<Rightarrow> nat"
  shape_last :: "'t \<Rightarrow> nat"
  repeat3 :: "'t \<Rightarrow> nat \<Rightarrow> nat \<Rightarrow> nat \<Rightarrow> 't"
  permute_021 :: "'t \<Rightarrow> 't"
  cat_last :: "'t \<Rightarrow> 't \<Rightarrow> 't"
  to_float :: "'t \<Rightarrow> 't"
  tmean :: "'t \<Rightarrow> 't"
  tadd :: "'t \<Rightarrow> 't \<Rightarrow> 't"
  tadd_int :: "'t \<Rightarrow> int \<Rightarrow> 't"
  tmul_int :: "'t \<Rightarrow> int \<Rightarrow> 't"
  less_scalar :: "'t \<Rightarrow> pyfloat \<Rightarrow> 't"
  where_mask :: "'t \<Rightarrow> 't \<Rightarrow> 't \<Rightarrow> 't"
  interpolate_nearest :: "'t \<Rightarrow> nat \<Rightarrow> 't"
  timestep_embedding :: "'t \<Rightarrow> int \<Rightarrow> 't"

text \<open>
  An accumulator that starts as the Python int \<open>0\<close> and becomes a tensor with the
  first tensor added to it.
\<close>

datatype 't py_num = IntVal int | TensorVal 't

definition num_add :: "'t tensor_fns \<Rightarrow> 't py_num \<Rightarrow> 't py_num \<Rightarrow> 't py_num" where
  "num_add fns a b =
     (case (a, b) of
        (IntVal i, IntVal j) \<Rightarrow> IntVal (i + j)
      | (IntVal i, TensorVal t) \<Rightarrow> TensorVal (tadd_int fns t i)
      | (TensorVal s, IntVal j) \<Rightarrow> TensorVal (tadd_int fns s j)
      | (TensorVal s, TensorVal t) \<Rightarrow> TensorVal (tadd fns s t))"

definition num_times_int :: "'t tensor_fns \<Rightarrow> 't py_num \<Rightarrow> int \<Rightarrow> 't py_num" where
  "num_times_int fns a k =
     (case a of IntVal i \<Rightarrow> IntVal (i * k) | TensorVal t \<Rightarrow> TensorVal (tmul_int fns t k))"

definition tensor_plus :: "'t tensor_fns \<Rightarrow> 't \<Rightarrow> 't py_num \<Rightarrow> 't" where
  "tensor_plus fns t a =
     (case a of IntVal i \<Rightarrow> tadd_int fns t i | TensorVal s \<Rightarrow> tadd fns t s)"

text \<open>The attributes of a TransformerDiffusion: hyperparameters, mode and layers.\<close>

record 't transformer_diffusion =
  prenet_channels :: int
  unconditioned_percentage :: pyfloat
  ar_prior :: bool
  training :: bool
  inp_block :: "'t \<Rightarrow> 't"
  time_embed :: "'t \<Rightarrow> 't"
  ar_input :: "'t \<Rightarrow> 't"
  ar_prior_intg :: "'t \<Rightarrow> 't"
  input_converter :: "'t \<Rightarrow> 't"
  code_converter :: "'t \<Rightarrow> 't"
  unconditioned_embedding :: "'t"
  rotary_embeddings :: "nat \<Rightarrow> 't"
  intg :: "'t \<Rightarrow> 't"
  layers :: "('t \<Rightarrow> 't \<Rightarrow> 't \<Rightarrow> 't) list"
  out :: "'t \<Rightarrow> 't"

text \<open>
  \<open>timestep_independent\<close> (lines 158 to 170). \<open>rand\<close> is the sample that
  \<^verbatim>\<open>torch.rand((b, 1, 1))\<close> drew, as a function of \<open>b\<close>. A linear layer applied to
  \<^verbatim>\<open>None\<close> raises TypeError.
\<close>

definition timestep_independent ::
  "'t transformer_diffusion \<Rightarrow> 't tensor_fns \<Rightarrow> (nat \<Rightarrow> 't) \<Rightarrow> 't option \<Rightarrow> nat \<Rightarrow> py_error + 't" where
  "timestep_independent self fns rand prior expected_seq_len =
     (case prior of
        None \<Rightarrow> Inl TypeError
      | Some prior \<Rightarrow>
          let code_emb = (if ar_prior self then ar_input self prior else input_converter self prior);
              code_emb =
                (if training self \<and> float_gt (unconditioned_percentage self) (Finite 0)
                 then
                   let unconditioned_batches =
                         less_scalar fns (rand (shape_first fns code_emb)) (unconditioned_percentage self)
                   in where_mask fns unconditioned_batches
                        (repeat3 fns (unconditioned_embedding self) (shape_first fns prior) 1 1)
                        code_emb
                 else code_emb);
              code_emb = (if ar_prior self then ar_prior_intg self code_emb
                          else code_converter self code_emb);
              expanded_code_emb =
                permute_021 fns (interpolate_nearest fns (permute_021 fns code_emb) expected_seq_len)
          in Inr expanded_code_emb)"

definition precomputed_message :: string where
  "precomputed_message =
     ''Do not provide precomputed embeddings and the other parameters. It is unclear what you want me to do here.''"

text \<open>\<open>TransformerDiffusion.forward\<close> (lines 172 to 203).\<close>

definition TransformerDiffusion_forward ::
  "'t transformer_diffusion \<Rightarrow> 't tensor_fns \<Rightarrow> (nat \<Rightarrow> 't) \<Rightarrow> 't \<Rightarrow> 't \<Rightarrow>
   't option \<Rightarrow> 't option \<Rightarrow> 't option \<Rightarrow> bool \<Rightarrow> py_error + 't" where
  "TransformerDiffusion_forward self fns rand x timesteps codes conditioning_input
     precomputed_code_embeddings conditioning_free =
     (if precomputed_code_embeddings \<noteq> None \<and> \<not> (codes = None \<and> conditioning_input = None)
      then Inl (AssertionError precomputed_message)
      else
        bind_err
          (if conditioning_free
           then Inr (repeat3 fns (unconditioned_embedding self) (shape_first fns x) (shape_last fns x) 1,
                     [])
           else
             bind_err
               (case precomputed_code_embeddings of
                  Some e \<Rightarrow> Inr e
                | None \<Rightarrow> timestep_independent self fns rand codes (shape_last fns x))
               (\<lambda>code_emb. Inr (code_emb, [unconditioned_embedding self])))
          (\<lambda>(code_emb, unused_params).
             let blk_emb = time_embed self (timestep_embedding fns timesteps (prenet_channels self));
                 x = permute_021 fns (inp_block self x);
                 rotary_pos_emb = rotary_embeddings self (shape_second fns x);
                 x = intg self (cat_last fns x code_emb);
                 x = foldl (\<lambda>x layer. layer x blk_emb rotary_pos_emb) x (layers self);
                 x = permute_021 fns (to_float fns x);
                 out = out self x;
                 extraneous_addition =
                   foldl (\<lambda>extraneous_addition p.
                            num_add fns extraneous_addition (TensorVal (tmean fns p)))
                     (IntVal 0) unused_params;
                 out = tensor_plus fns out (num_times_int fns extraneous_addition 0)
             in Inr out))"

subsection \<open>TransformerDiffusionWithQuantizer\<close>

text \<open>
  The attributes of the MusicQuantizer2 that this file reads and writes (the class
  itself is in another module): the three temperature settings, the temperature of
  its inner quantizer, its forward function with \<^verbatim>\<open>return_decoder_latent=True\<close>, which
  returns the projection and the diversity loss, and its parameter tensors. The
  diversity loss is the one tensor whose value the claims speak of: it is given by its
  elements, a single one when it is a scalar.
\<close>

record 't music_quantizer =
  max_gumbel_temperature :: pyfloat
  min_gumbel_temperature :: pyfloat
  gumbel_temperature_decay :: pyfloat
  temperature :: pyfloat
  quantize :: "'t \<Rightarrow> 't \<times> pyfloat list"
  parameters :: "'t list"








subsection \<open>A small instance for evaluation\<close>

text \<open>
  Tensors are single real numbers and every layer is a simple function of them. The
  exact power and product stand for the floating-point ones at numbers where these are
  exact.
\<close>

definition toy_fns :: "real tensor_fns" where
  "toy_fns =
     \<lparr>shape_first = (\<lambda>t. 1), shape_second = (\<lambda>t. 1), shape_last = (\<lambda>t. 1),
      repeat3 = (\<lambda>t a b c. t),
      permute_021 = (\<lambda>t. t),
      cat_last = (\<lambda>a b. a + b),
      to_float = (\<lambda>t. t),
      tmean = (\<lambda>t. t),
      tadd = (\<lambda>s t. s + t),
      tadd_int = (\<lambda>t i. t + of_int i),
      tmul_int = (\<lambda>t i. t * of_int i),
      less_scalar = (\<lambda>t s. if float_gt s (Finite t) then 1 else 0),
      where_mask = (\<lambda>m a b. if m = 0 then b else a),
      interpolate_nearest = (\<lambda>t n. t),
      timestep_embedding = (\<lambda>t c. t)\<rparr>"

definition toy_diffusion :: "real transformer_diffusion" where
  "toy_diffusion =
     \<lparr>prenet_channels = 256, unconditioned_percentage = Finite (1 / 10), ar_prior = False,
      training = False,
      inp_block = (\<lambda>t. t), time_embed = (\<lambda>t. t), ar_input = (\<lambda>t. t),
      ar_prior_intg = (\<lambda>t. t), input_converter = (\<lambda>t. t), code_converter = (\<lambda>t. t),
      unconditioned_embedding = 0, rotary_embeddings = (\<lambda>n. 0), intg = (\<lambda>t. t),
      layers = [\<lambda>x e r. x + e], out = (\<lambda>t. 2 * t)\<rparr>"



section \<open>Properties\<close>

subsection \<open>Helper facts\<close>

lemma default_config_eq:
  "default_config =
     \<lparr>number_text_tokens = 256, start_text_token = 255, stop_text_token = 0,
      number_mel_codes = 8194, start_mel_token = 8192, stop_mel_token = 8193,
      max_mel_tokens = 250, max_symbols_per_phrase = 120, max_total_tokens = 370,
      model_dim = 512, max_conditioning_inputs = 3, mel_length_compression = 1024,
      max_conditioning_length = 60, top_dim_reduction = 16\<rparr>"
  by (simp add: default_config_def default_args_def gpt_config.truncate_def)

lemma bind_err_Inl:
  "bind_err r f = Inl e \<longleftrightarrow> r = Inl e \<or> (\<exists>x. r = Inr x \<and> f x = Inl e)"
  by (cases r) (simp_all add: bind_err_def)

lemma bind_err_Inr [simp]: "bind_err (Inr x) f = f x"
  by (simp add: bind_err_def)

lemma bind_err_Inl_left [simp]: "bind_err (Inl e) f = Inl e"
  by (simp add: bind_err_def)

lemma wrap64_id: "int64 x \<Longrightarrow> wrap64 x = x"
  unfolding int64_def wrap64_def by (simp add: mod_pos_pos_trivial)

lemma floor_log2_eq: "2 ^ k \<le> n \<Longrightarrow> n < 2 ^ Suc k \<Longrightarrow> floor_log2 n = k"
proof (induction k arbitrary: n)
  case 0
  then show ?case by (simp add: floor_log2.simps)
next
  case (Suc k)
  from Suc.prems have "2 \<le> n" 
    by (metis One_nat_def Suc_1 le_trans one_le_numeral one_le_power power_one_right power_Suc
        mult.commute mult_le_mono1 nat_mult_1)
  moreover from Suc.prems have "2 ^ k \<le> n div 2" "n div 2 < 2 ^ Suc k"
    by (simp_all add: less_mult_imp_div_less mult.commute)
  ultimately show ?case using Suc.IH [of "n div 2"]
    by (subst floor_log2.simps) simp
qed

lemma pad_value_exact: "abs v \<le> 2 ^ 53 \<Longrightarrow> pad_value v = Inr v"
  by (simp add: pad_value_def double_of_int_def int64_def) arith

lemma pad_last_exact:
  "abs v \<le> 2 ^ 53 \<Longrightarrow>
   pad_last t l r v = Inr \<lparr>shape1 = l + shape1 t + r,
                          rows = map (\<lambda>row. replicate l v @ row @ replicate r v) (rows t)\<rparr>"
  by (simp add: pad_last_def pad_value_exact)

lemma build_aligned_exact:
  "abs s \<le> 2 ^ 53 \<Longrightarrow> abs e \<le> 2 ^ 53 \<Longrightarrow>
   build_aligned_inputs_and_targets x s e
     = Inr (\<lparr>shape1 = 1 + shape1 x + 0, rows = map (\<lambda>row. replicate 1 s @ row @ replicate 0 s) (rows x)\<rparr>,
            \<lparr>shape1 = 0 + shape1 x + 1, rows = map (\<lambda>row. replicate 0 e @ row @ replicate 1 e) (rows x)\<rparr>)"
  by (simp add: build_aligned_inputs_and_targets_def pad_last_exact)

subsection \<open>build\_aligned\_inputs\_and\_targets\<close>

text \<open>
  C9 (as amended). For a batch of token sequences of length \<open>n\<close> and tokens \<open>s\<close>, \<open>e\<close> of
  absolute value at most \<open>2 ^ 53\<close>, \<open>build_aligned_inputs_and_targets\<close> returns
  \<open>(inp, tar)\<close>, both of length \<open>n + 1\<close> in every row, with \<open>inp[0] = s\<close>,
  \<open>inp[i + 1] = x[i]\<close> and \<open>tar[i] = x[i]\<close> for \<open>i < n\<close>, and \<open>tar[n] = e\<close>; so
  \<open>tar[i] = inp[i + 1]\<close> for \<open>i < n\<close>: the targets are the inputs shifted left by one.
\<close>

theorem build_aligned_inputs_and_targets_shift:
  assumes "rectangular x"
    and "abs s \<le> 2 ^ 53"
    and "abs e \<le> 2 ^ 53"
    and "b < length (rows x)"
  shows "\<exists>inp tar. build_aligned_inputs_and_targets x s e = Inr (inp, tar)
       \<and> shape1 inp = shape1 x + 1 \<and> shape1 tar = shape1 x + 1
       \<and> length (rows inp) = length (rows x) \<and> length (rows tar) = length (rows x)
       \<and> length (rows inp ! b) = shape1 x + 1 \<and> length (rows tar ! b) = shape1 x + 1
       \<and> rows inp ! b ! 0 = s
       \<and> (\<forall>i < shape1 x. rows inp ! b ! (i + 1) = rows x ! b ! i)
       \<and> (\<forall>i < shape1 x. rows tar ! b ! i = rows x ! b ! i)
       \<and> rows tar ! b ! shape1 x = e
       \<and> (\<forall>i < shape1 x. rows tar ! b ! i = rows inp ! b ! (i + 1))"
proof -
  from assms(1,4) have len: "length (rows x ! b) = shape1 x"
    by (simp add: rectangular_def list_all_length)
  show ?thesis
    using len assms(4) by (simp add: build_aligned_exact [OF assms(2,3)] nth_append)
qed

theorem build_aligned_inputs_and_targets_shift_witness:
  "build_aligned_inputs_and_targets \<lparr>shape1 = 2, rows = [[5, 6], [7, 8]]\<rparr> 255 0
     = Inr (\<lparr>shape1 = 3, rows = [[255, 5, 6], [255, 7, 8]]\<rparr>,
            \<lparr>shape1 = 3, rows = [[5, 6, 0], [7, 8, 0]]\<rparr>)"
proof -
  have r: "rectangular \<lparr>shape1 = 2, rows = [[5, 6], [7, 8 :: int]]\<rparr>"
    by (simp add: rectangular_def)
  have s: "abs (255 :: int) \<le> 2 ^ 53" and e: "abs (0 :: int) \<le> 2 ^ 53"
    by simp_all
  have b: "(1::nat) < length (rows \<lparr>shape1 = 2, rows = [[5, 6], [7, 8 :: int]]\<rparr>)"
    by simp
  have c: "build_aligned_inputs_and_targets \<lparr>shape1 = 2, rows = [[5, 6], [7, 8]]\<rparr> 255 0
     = Inr (\<lparr>shape1 = 3, rows = [[255, 5, 6], [255, 7, 8]]\<rparr>,
            \<lparr>shape1 = 3, rows = [[5, 6, 0], [7, 8, 0]]\<rparr>)"
    by (simp add: build_aligned_exact)
  from build_aligned_inputs_and_targets_shift [OF r s e b]
  obtain inp tar where
    i: "build_aligned_inputs_and_targets \<lparr>shape1 = 2, rows = [[5, 6], [7, 8]]\<rparr> 255 0 = Inr (inp, tar)"
    and "rows inp ! 1 ! 0 = 255" and "rows tar ! 1 ! 2 = 0"
    by auto
  with c show ?thesis
    by simp
qed

text \<open>
  Without the bound the claim fails: the start token \<open>2 ^ 53 + 1\<close> is rounded to the
  double \<open>2 ^ 53\<close> on its way into the tensor, so \<open>inp[0]\<close> is not the start token.
\<close>

theorem build_aligned_inputs_and_targets_rounding_counterexample:
  "build_aligned_inputs_and_targets \<lparr>shape1 = 1, rows = [[5]]\<rparr> 9007199254740993 0
     = Inr (\<lparr>shape1 = 2, rows = [[9007199254740992, 5]]\<rparr>, \<lparr>shape1 = 2, rows = [[5, 0]]\<rparr>)
   \<and> rows \<lparr>shape1 = 2, rows = [[9007199254740992, 5 :: int]]\<rparr> ! 0 ! 0 \<noteq> 9007199254740993"
proof -
  have "floor_log2 9007199254740993 = 53"
    by (rule floor_log2_eq) simp_all
  then have "double_of_int 9007199254740993 = 9007199254740992"
    by (simp add: double_of_int_def)
  then show ?thesis
    by (simp add: build_aligned_inputs_and_targets_def pad_last_def pad_value_def int64_def
        double_of_int_def)
qed

subsection \<open>set\_mel\_padding\<close>

lemma fill_from_length: "length (fill_from row s v) = length row"
  by (simp add: fill_from_def Let_def slice_index_def)

lemma fill_from_nth:
  "0 \<le> s \<Longrightarrow> i < length row \<Longrightarrow>
     fill_from row s v ! i = (if s \<le> int i then v else row ! i)"
  by (auto simp: fill_from_def Let_def slice_index_def nth_append)

lemma set_mel_padding_loop_ok:
  "int64 stop \<Longrightarrow> b + length ls \<le> length rs \<Longrightarrow>
   \<exists>rs'. set_mel_padding_loop stop w b ls rs = Inr rs' \<and> length rs' = length rs \<and>
     (\<forall>j < length rs. rs' ! j =
        (if b \<le> j \<and> j < b + length ls \<and> wrap64 (ls ! (j - b) + 1) < int w
         then fill_from (rs ! j) (wrap64 (ls ! (j - b) + 1)) stop else rs ! j))"
proof (induction ls arbitrary: b rs)
  case Nil
  then show ?case by auto
next
  case (Cons l ls)
  let ?rs1 = "if wrap64 (l + 1) < int w then rs[b := fill_from (rs ! b) (wrap64 (l + 1)) stop] else rs"
  have step: "set_mel_padding_loop stop w b (l # ls) rs = set_mel_padding_loop stop w (Suc b) ls ?rs1"
    using Cons.prems by (simp add: Let_def)
  have "Suc b + length ls \<le> length ?rs1" using Cons.prems by simp
  from Cons.IH [OF Cons.prems(1) this] obtain rs' where
    r: "set_mel_padding_loop stop w (Suc b) ls ?rs1 = Inr rs'" and
    l: "length rs' = length ?rs1" and
    n: "\<forall>j < length ?rs1. rs' ! j =
        (if Suc b \<le> j \<and> j < Suc b + length ls \<and> wrap64 (ls ! (j - Suc b) + 1) < int w
         then fill_from (?rs1 ! j) (wrap64 (ls ! (j - Suc b) + 1)) stop else ?rs1 ! j)"
    by blast
  have "\<forall>j < length rs. rs' ! j =
        (if b \<le> j \<and> j < b + length (l # ls) \<and> wrap64 ((l # ls) ! (j - b) + 1) < int w
         then fill_from (rs ! j) (wrap64 ((l # ls) ! (j - b) + 1)) stop else rs ! j)"
  proof (intro allI impI)
    fix j assume j: "j < length rs"
    show "rs' ! j =
        (if b \<le> j \<and> j < b + length (l # ls) \<and> wrap64 ((l # ls) ! (j - b) + 1) < int w
         then fill_from (rs ! j) (wrap64 ((l # ls) ! (j - b) + 1)) stop else rs ! j)"
    proof (cases "j = b")
      case True
      with n j show ?thesis by simp
    next
      case False
      then have "(l # ls) ! (j - b) = ls ! (j - Suc b)" if "b \<le> j"
      proof -
        from that False have "j - b = Suc (j - Suc b)" by arith
        then show ?thesis by simp
      qed
      with n j False show ?thesis by (auto simp: nth_list_update)
    qed
  qed
  with step r l show ?case by simp
qed

lemma set_mel_padding_ok:
  assumes "int64 (mel_length_compression cfg)" and "mel_length_compression cfg \<noteq> 0"
    and "int64 (stop_mel_token cfg)" and "length wav_lengths \<le> length (rows t)"
  shows "\<exists>rs. set_mel_padding cfg t wav_lengths = Inr (t\<lparr>rows := rs\<rparr>) \<and> length rs = length (rows t)"
proof -
  let ?ls = "map (\<lambda>x. wrap64 (x div mel_length_compression cfg)) wav_lengths"
  have "0 + length ?ls \<le> length (rows t)" using assms(4) by simp
  from set_mel_padding_loop_ok [OF assms(3) this, of "shape1 t"]
  obtain rs' where "set_mel_padding_loop (stop_mel_token cfg) (shape1 t) 0 ?ls (rows t) = Inr rs'"
    and "length rs' = length (rows t)"
    by blast
  with assms(1,2) have "set_mel_padding cfg t wav_lengths = Inr (t\<lparr>rows := rs'\<rparr>)
      \<and> length rs' = length (rows t)"
    by (simp add: set_mel_padding_def torch_floordiv_def)
  then show ?thesis by blast
qed

text \<open>
  C8 (as amended). \<open>set_mel_padding\<close> writes through its argument and returns the same
  reference; no other cell of the store changes. Take a rectangular batch with one wav
  length per row, all of them 64-bit values, a positive compression and a stop token
  that fit 64 bits, and a row \<open>b\<close> with a non-negative wav length; let
  \<open>L = wav_lengths[b] // mel_length_compression\<close> and let \<open>L + 1\<close> be below \<open>2 ^ 63\<close>.
  If \<open>L + 1\<close> is below the sequence length, every position of row \<open>b\<close> at index
  \<open>\<ge> L + 1\<close> holds \<open>stop_mel_token\<close> afterwards and every position below keeps its
  value; otherwise row \<open>b\<close> is unchanged.
\<close>

theorem set_mel_padding_frame:
  assumes st: "st mel_input_tokens = Some t"
    and rect: "rectangular t"
    and len: "length wav_lengths = length (rows t)"
    and wavs: "list_all int64 wav_lengths"
    and pos: "0 < mel_length_compression cfg"
    and fits: "mel_length_compression cfg < 2 ^ 63"
    and stop: "int64 (stop_mel_token cfg)"
    and b: "b < length (rows t)"
    and nonneg: "0 \<le> wav_lengths ! b"
    and L: "L = wav_lengths ! b div mel_length_compression cfg"
    and nowrap: "L + 1 < 2 ^ 63"
  shows "\<exists>t'. set_mel_padding_inplace cfg st mel_input_tokens wav_lengths
                 = Inr (mel_input_tokens, st(mel_input_tokens := Some t'))
           \<and> shape1 t' = shape1 t \<and> length (rows t') = length (rows t)
           \<and> length (rows t' ! b) = shape1 t
           \<and> (if L + 1 < int (shape1 t)
              then list_all (\<lambda>i. rows t' ! b ! i =
                      (if L + 1 \<le> int i then stop_mel_token cfg else rows t ! b ! i))
                     [0 ..< shape1 t]
              else rows t' ! b = rows t ! b)"
proof -
  let ?ls = "map (\<lambda>x. wrap64 (x div mel_length_compression cfg)) wav_lengths"
  have c64: "int64 (mel_length_compression cfg)"
    using pos fits by (simp add: int64_def)
  have "0 + length ?ls \<le> length (rows t)" using len by simp
  from set_mel_padding_loop_ok [OF stop this, of "shape1 t"]
  obtain rs' where
    r: "set_mel_padding_loop (stop_mel_token cfg) (shape1 t) 0 ?ls (rows t) = Inr rs'" and
    l: "length rs' = length (rows t)" and
    n: "\<forall>j < length (rows t). rs' ! j =
        (if 0 \<le> j \<and> j < 0 + length ?ls \<and> wrap64 (?ls ! (j - 0) + 1) < int (shape1 t)
         then fill_from (rows t ! j) (wrap64 (?ls ! (j - 0) + 1)) (stop_mel_token cfg)
         else rows t ! j)"
    by blast
  have rowlen: "length (rows t ! b) = shape1 t"
    using rect b by (simp add: rectangular_def list_all_length)
  have L0: "0 \<le> L" using nonneg pos L by (simp add: pos_imp_zdiv_nonneg_iff)
  have "int64 L" using L0 nowrap by (simp add: int64_def)
  then have Lb: "?ls ! b = L" using b len L by (simp add: wrap64_id)
  have "int64 (L + 1)" using L0 nowrap by (simp add: int64_def)
  then have L1: "wrap64 (?ls ! b + 1) = L + 1" by (simp add: Lb wrap64_id)
  from n b len L1 have rb: "rs' ! b =
      (if L + 1 < int (shape1 t) then fill_from (rows t ! b) (L + 1) (stop_mel_token cfg)
       else rows t ! b)"
    by simp
  have run: "set_mel_padding_inplace cfg st mel_input_tokens wav_lengths
               = Inr (mel_input_tokens, st(mel_input_tokens := Some (t\<lparr>rows := rs'\<rparr>)))"
    using st c64 pos r
    by (simp add: set_mel_padding_inplace_def set_mel_padding_def torch_floordiv_def)
  have "list_all (\<lambda>i. fill_from (rows t ! b) (L + 1) (stop_mel_token cfg) ! i =
                      (if L + 1 \<le> int i then stop_mel_token cfg else rows t ! b ! i))
                     [0 ..< shape1 t]"
    using L0 rowlen by (simp add: list_all_iff fill_from_nth)
  with run l rb rowlen show ?thesis
    by (intro exI [of _ "t\<lparr>rows := rs'\<rparr>"]) (simp add: fill_from_length)
qed

theorem set_mel_padding_frame_witness:
  "set_mel_padding_inplace default_config ((\<lambda>_. None)(0 := Some \<lparr>shape1 = 4, rows = [[5, 6, 7, 8], [1, 2, 3, 4]]\<rparr>)) 0 [1024, 4096]
     = Inr (0, (\<lambda>_. None)(0 := Some \<lparr>shape1 = 4, rows = [[5, 6, 8193, 8193], [1, 2, 3, 4]]\<rparr>))"
proof -
  let ?t = "\<lparr>shape1 = 4, rows = [[5, 6, 7, 8], [1, 2, 3, 4 :: int]]\<rparr>"
  let ?st = "(\<lambda>_. None)(0 := Some ?t) :: store"
  have 1: "?st 0 = Some ?t" by simp
  have 2: "rectangular ?t" by (simp add: rectangular_def)
  have 3: "length [1024, 4096 :: int] = length (rows ?t)" by simp
  have 4: "list_all int64 [1024, 4096]" by (simp add: int64_def)
  have 5: "0 < mel_length_compression default_config" by (simp add: default_config_eq)
  have 6: "mel_length_compression default_config < 2 ^ 63" by (simp add: default_config_eq)
  have 7: "int64 (stop_mel_token default_config)" by (simp add: default_config_eq int64_def)
  have 8: "(0::nat) < length (rows ?t)" by simp
  have 9: "(0::int) \<le> [1024, 4096] ! 0" by simp
  have 10: "(1::int) = [1024, 4096] ! 0 div mel_length_compression default_config"
    by (simp add: default_config_eq)
  have 11: "(1::int) + 1 < 2 ^ 63" by simp
  from set_mel_padding_frame [of ?st 0 ?t "[1024, 4096]" default_config 0 1,
      OF 1 2 3 4 5 6 7 8 9 10 11]
  show ?thesis
    by (simp add: set_mel_padding_inplace_def set_mel_padding_def torch_floordiv_def
        default_config_eq fill_from_def slice_index_def int64_def wrap64_def)
qed

text \<open>
  The bound on \<open>L + 1\<close> is needed. With the wav length \<open>2 ^ 63 - 1\<close> and the compression
  1, \<open>L + 1 = 2 ^ 63\<close> is not below the sequence length 3, so the claim leaves the row
  unchanged; but the 64-bit sum wraps to \<open>- 2 ^ 63\<close>, which is below it, and the slice
  from there covers the whole row.
\<close>

theorem set_mel_padding_wrap_counterexample:
  "\<not> (9223372036854775807 div mel_length_compression (default_config\<lparr>mel_length_compression := 1\<rparr>) + 1
        < int (shape1 \<lparr>shape1 = 3, rows = [[5, 6, 7 :: int]]\<rparr>))
   \<and> set_mel_padding (default_config\<lparr>mel_length_compression := 1\<rparr>)
        \<lparr>shape1 = 3, rows = [[5, 6, 7]]\<rparr> [9223372036854775807]
       = Inr \<lparr>shape1 = 3, rows = [[8193, 8193, 8193]]\<rparr>
   \<and> rows \<lparr>shape1 = 3, rows = [[8193, 8193, 8193 :: int]]\<rparr> ! 0
       \<noteq> rows \<lparr>shape1 = 3, rows = [[5, 6, 7]]\<rparr> ! 0"
  by (simp add: set_mel_padding_def torch_floordiv_def default_config_eq fill_from_def
      slice_index_def int64_def wrap64_def)

subsection \<open>Construction\<close>

lemma TopEncoder_init_raises:
  "TopEncoder_init n d h c r
     = Inl (AttributeError ''cannot assign module before Module.__init__() call'')"
  by (simp add: TopEncoder_init_def nn_Module_setattr_def bind_err_def)

theorem ConditioningEncoder_ok_default:
  "ConditioningEncoder_init 80 512 6 8 False
     = Inr (Instance ''ConditioningEncoder''
         [(''init'', Conv1d 80 512 1 0 1),
          (''attn'', Sequential (replicate 6 (AttentionBlock 512 8 False)))])"
  by (simp add: ConditioningEncoder_init_def nn_Module_setattr_def nn_Module_init_def bind_err_def registered_def)

text \<open>
  C1. The claim is that constructing a UnifiedGptVoice succeeds, in particular with the
  default arguments. The model evaluates the constructor at the defaults: it raises
  AttributeError when \<open>TopEncoder.__init__\<close> assigns its first layer, since that class
  never calls \<^verbatim>\<open>super().__init__()\<close> (\<open>ConditioningEncoder\<close>, built just before, does and
  succeeds).
\<close>

theorem UnifiedGptVoice_init_default_raises:
  "UnifiedGptVoice_init default_args
     = Inl (AttributeError ''cannot assign module before Module.__init__() call'')"
  by (simp add: UnifiedGptVoice_init_def default_args_def TopEncoder_init_def
      ConditioningEncoder_init_def nn_Module_setattr_def nn_Module_init_def bind_err_def)

subsection \<open>The forward passes\<close>

lemma set_mel_padding_loop_no_assertion:
  "set_mel_padding_loop stop w b ls rs \<noteq> Inl (AssertionError msg)"
  by (induction ls arbitrary: b rs) (simp_all add: Let_def)

lemma set_mel_padding_no_assertion:
  "set_mel_padding cfg t wav \<noteq> Inl (AssertionError msg)"
  using set_mel_padding_loop_no_assertion
  by (auto simp: set_mel_padding_def torch_floordiv_def bind_err_Inl split: if_splits)

lemma build_aligned_no_assertion:
  "build_aligned_inputs_and_targets x s e \<noteq> Inl (AssertionError msg)"
  by (auto simp: build_aligned_inputs_and_targets_def pad_last_def pad_value_def bind_err_Inl
      Let_def split: if_splits)

lemma embed_tokens_no_assertion:
  "embed_tokens ops n table pn ptable inputs \<noteq> Inl (AssertionError msg)"
  by (auto simp: embed_tokens_def embedding_def embedding_positions_def bind_err_Inl
      split: if_splits)

lemma cat_dim1_no_assertion: "cat_dim1 ts \<noteq> Inl (AssertionError msg)"
  by (auto simp: cat_dim1_def split: list.splits if_splits)

lemma get_logits_no_assertion:
  "get_logits net ops c f h snd_in ga \<noteq> Inl (AssertionError msg)"
  by (auto simp: get_logits_def bind_err_Inl cat_dim1_no_assertion Let_def
      split: option.splits if_splits)

lemma unpack2_no_assertion: "unpack2 r \<noteq> Inl (AssertionError msg)"
  by (auto simp: unpack2_def split: logits_result.splits list.splits)

lemma loss_of_no_assertion: "loss_of ops n l t \<noteq> Inl (AssertionError msg)"
  by (auto simp: loss_of_def split: tensor_value.splits)

lemma first_only_no_assertion: "first_only r \<noteq> Inl (AssertionError msg)"
  by (auto simp: first_only_def split: logits_result.splits)

lemma forward_within_limits_no_assertion:
  assumes "int (shape1 mel_inputs) \<le> max_mel_tokens cfg"
    and "int (shape1 text_inputs) \<le> max_symbols_per_phrase cfg"
    and "int (shape1 mel_inputs) + int (shape1 text_inputs) \<le> max_total_tokens cfg"
  shows "forward net ops cfg randperm sci text_inputs mel_inputs wav_lengths text_first ra
           \<noteq> Inl (AssertionError msg)"
  using assms
  by (auto simp: forward_def bind_err_Inl Let_def split_def set_mel_padding_no_assertion
      build_aligned_no_assertion embed_tokens_no_assertion get_logits_no_assertion
      unpack2_no_assertion loss_of_no_assertion split: if_splits)

lemma text_forward_within_limit_no_assertion:
  assumes "int (shape1 text_inputs) \<le> max_symbols_per_phrase cfg"
  shows "text_forward net ops cfg randperm sci text_inputs \<noteq> Inl (AssertionError msg)"
  using assms
  by (auto simp: text_forward_def bind_err_Inl Let_def split_def
      build_aligned_no_assertion embed_tokens_no_assertion get_logits_no_assertion
      first_only_no_assertion loss_of_no_assertion split: if_splits)

lemma speech_forward_within_limit_no_assertion:
  assumes "int (shape1 mel_inputs) \<le> max_mel_tokens cfg"
  shows "speech_forward net ops cfg randperm sci mel_inputs wav_lengths \<noteq> Inl (AssertionError msg)"
  using assms
  by (auto simp: speech_forward_def bind_err_Inl Let_def split_def set_mel_padding_no_assertion
      build_aligned_no_assertion embed_tokens_no_assertion get_logits_no_assertion
      first_only_no_assertion loss_of_no_assertion split: if_splits)

text \<open>
  C2. \<open>forward\<close> raises an AssertionError exactly when the mel length exceeds
  \<open>max_mel_tokens\<close>, or the text length exceeds \<open>max_symbols_per_phrase\<close>, or their sum
  exceeds \<open>max_total_tokens\<close>; within the three bounds no assertion fires.
  \<open>text_forward\<close> and \<open>speech_forward\<close> have the single bound on the text length and on
  the mel length.
\<close>

theorem validation_assertions:
  "((\<exists>msg. forward net ops cfg randperm sci text_inputs mel_inputs wav_lengths text_first ra
            = Inl (AssertionError msg))
      \<longleftrightarrow> (max_mel_tokens cfg < int (shape1 mel_inputs)
           \<or> max_symbols_per_phrase cfg < int (shape1 text_inputs)
           \<or> max_total_tokens cfg < int (shape1 mel_inputs) + int (shape1 text_inputs)))
   \<and> ((\<exists>msg. text_forward net ops cfg randperm sci text_inputs = Inl (AssertionError msg))
      \<longleftrightarrow> max_symbols_per_phrase cfg < int (shape1 text_inputs))
   \<and> ((\<exists>msg. speech_forward net ops cfg randperm sci mel_inputs wav_lengths = Inl (AssertionError msg))
      \<longleftrightarrow> max_mel_tokens cfg < int (shape1 mel_inputs))"
proof (intro conjI iffI)
  assume "\<exists>msg. forward net ops cfg randperm sci text_inputs mel_inputs wav_lengths text_first ra
            = Inl (AssertionError msg)"
  then show "max_mel_tokens cfg < int (shape1 mel_inputs)
           \<or> max_symbols_per_phrase cfg < int (shape1 text_inputs)
           \<or> max_total_tokens cfg < int (shape1 mel_inputs) + int (shape1 text_inputs)"
    using forward_within_limits_no_assertion [of mel_inputs cfg text_inputs net ops randperm sci
        wav_lengths text_first ra]
    by (meson not_le)
next
  assume "max_mel_tokens cfg < int (shape1 mel_inputs)
           \<or> max_symbols_per_phrase cfg < int (shape1 text_inputs)
           \<or> max_total_tokens cfg < int (shape1 mel_inputs) + int (shape1 text_inputs)"
  then show "\<exists>msg. forward net ops cfg randperm sci text_inputs mel_inputs wav_lengths text_first ra
            = Inl (AssertionError msg)"
    by (auto simp: forward_def)
next
  assume "\<exists>msg. text_forward net ops cfg randperm sci text_inputs = Inl (AssertionError msg)"
  then show "max_symbols_per_phrase cfg < int (shape1 text_inputs)"
    using text_forward_within_limit_no_assertion [of text_inputs cfg net ops randperm sci]
    by (meson not_le)
next
  assume "max_symbols_per_phrase cfg < int (shape1 text_inputs)"
  then show "\<exists>msg. text_forward net ops cfg randperm sci text_inputs = Inl (AssertionError msg)"
    by (auto simp: text_forward_def)
next
  assume "\<exists>msg. speech_forward net ops cfg randperm sci mel_inputs wav_lengths = Inl (AssertionError msg)"
  then show "max_mel_tokens cfg < int (shape1 mel_inputs)"
    using speech_forward_within_limit_no_assertion [of mel_inputs cfg net ops randperm sci wav_lengths]
    by (meson not_le)
next
  assume "max_mel_tokens cfg < int (shape1 mel_inputs)"
  then show "\<exists>msg. speech_forward net ops cfg randperm sci mel_inputs wav_lengths = Inl (AssertionError msg)"
    by (auto simp: speech_forward_def)
qed

theorem validation_assertions_witness:
  "(\<exists>msg. forward toy_modules toy_ops default_config [] \<lparr>shape2 = 0, channels = []\<rparr>
            \<lparr>shape1 = 2, rows = [[5, 6]]\<rparr> \<lparr>shape1 = 300, rows = []\<rparr> [] True False
          = Inl (AssertionError msg))
   \<and> forward toy_modules toy_ops default_config [] \<lparr>shape2 = 0, channels = []\<rparr>
            \<lparr>shape1 = 2, rows = [[5, 6]]\<rparr> \<lparr>shape1 = 300, rows = []\<rparr> [] True False
          = Inl (AssertionError ''300'')"
proof -
  have "max_mel_tokens default_config < int (shape1 \<lparr>shape1 = 300, rows = ([] :: int list list)\<rparr>)"
    by (simp add: default_config_eq)
  then have "\<exists>msg. forward toy_modules toy_ops default_config [] \<lparr>shape2 = 0, channels = []\<rparr>
            \<lparr>shape1 = 2, rows = [[5, 6]]\<rparr> \<lparr>shape1 = 300, rows = []\<rparr> [] True False
          = Inl (AssertionError msg)"
    using validation_assertions [of toy_modules toy_ops default_config "[]"
        "\<lparr>shape2 = 0, channels = []\<rparr>" "\<lparr>shape1 = 2, rows = [[5, 6]]\<rparr>"
        "\<lparr>shape1 = 300, rows = []\<rparr>" "[]" True False]
    by blast
  moreover have "forward toy_modules toy_ops default_config [] \<lparr>shape2 = 0, channels = []\<rparr>
            \<lparr>shape1 = 2, rows = [[5, 6]]\<rparr> \<lparr>shape1 = 300, rows = []\<rparr> [] True False
          = Inl (AssertionError ''300'')"
    by (simp add: forward_def default_config_eq digit_def)
  ultimately show ?thesis by blast
qed

lemma embedding_ok:
  "list_all (list_all (in_vocabulary n)) (rows t) \<Longrightarrow>
   embedding n table t = Inr \<lparr>shape1 = shape1 t, rows = map (map table) (rows t)\<rparr>"
  by (simp add: embedding_def)

lemma embedding_positions_ok:
  "int k \<le> n \<Longrightarrow> embedding_positions n table k = Inr (map table (arange k))"
  by (auto simp: embedding_positions_def arange_def list_all_iff in_vocabulary_def)

lemma cat_dim1_three:
  "length (rows b) = length (rows a) \<Longrightarrow> length (rows c) = length (rows a) \<Longrightarrow>
   cat_dim1 [a, b, c]
     = Inr \<lparr>shape1 = shape1 a + shape1 b + shape1 c,
            rows = map2 (@) (map2 (@) (rows a) (rows b)) (rows c)\<rparr>"
  by (simp add: cat_dim1_def)

lemma fill_from_list_all:
  "list_all P row \<Longrightarrow> P v \<Longrightarrow> list_all P (fill_from row s v)"
  by (auto simp: fill_from_def Let_def list_all_iff dest: in_set_takeD)

lemma set_mel_padding_vocabulary:
  assumes "int64 (mel_length_compression cfg)" and "mel_length_compression cfg \<noteq> 0"
    and "int64 (stop_mel_token cfg)" and "length wav_lengths \<le> length (rows t)"
    and "list_all (list_all P) (rows t)" and "P (stop_mel_token cfg)"
  shows "\<exists>rs. set_mel_padding cfg t wav_lengths = Inr (t\<lparr>rows := rs\<rparr>)
           \<and> length rs = length (rows t) \<and> list_all (list_all P) rs"
proof -
  let ?ls = "map (\<lambda>x. wrap64 (x div mel_length_compression cfg)) wav_lengths"
  have "0 + length ?ls \<le> length (rows t)" using assms(4) by simp
  from set_mel_padding_loop_ok [OF assms(3) this, of "shape1 t"]
  obtain rs' where
    r: "set_mel_padding_loop (stop_mel_token cfg) (shape1 t) 0 ?ls (rows t) = Inr rs'" and
    l: "length rs' = length (rows t)" and
    n: "\<forall>j < length (rows t). rs' ! j =
        (if 0 \<le> j \<and> j < 0 + length ?ls \<and> wrap64 (?ls ! (j - 0) + 1) < int (shape1 t)
         then fill_from (rows t ! j) (wrap64 (?ls ! (j - 0) + 1)) (stop_mel_token cfg)
         else rows t ! j)"
    by blast
  have "list_all P (rs' ! j)" if "j < length rs'" for j
  proof -
    from that l have j: "j < length (rows t)" by simp
    with assms(5) have "list_all P (rows t ! j)" by (simp add: list_all_length)
    with n j assms(6) show ?thesis by (simp add: fill_from_list_all)
  qed
  then have "list_all (list_all P) rs'" by (simp add: list_all_length)
  moreover from assms(1,2) r have "set_mel_padding cfg t wav_lengths = Inr (t\<lparr>rows := rs'\<rparr>)"
    by (simp add: set_mel_padding_def torch_floordiv_def)
  ultimately show ?thesis using l by blast
qed

lemma in_vocabulary_bounds:
  "in_vocabulary n i \<Longrightarrow> n \<le> 2 ^ 53 \<Longrightarrow> abs i \<le> 2 ^ 53 \<and> int64 i"
  by (simp add: in_vocabulary_def int64_def)

lemma loss_of_ok:
  "list_all (list_all (in_vocabulary n)) (rows targets) \<Longrightarrow>
   loss_of ops n (Logits l) targets = Inr (cross_entropy ops l targets)"
  by (simp add: loss_of_def valid_target_def list_all_iff)

text \<open>
  C3. Within the token limits, on an input that the tensor library accepts, and with
  \<open>return_attentions\<close> false, \<open>forward\<close> returns the triple of the text loss, the mel loss
  and the mel logits. The mel tokens are those that \<open>set_mel_padding\<close> leaves; inputs and
  targets are the tokens with the start token in front and with the stop token behind;
  each embedding is the sum of the token's and the position's vector; the sequence given
  to the bottom GPT is the conditioning vector, the first and the second embedding; its
  last hidden state without the first position is normalised, the logits of the first
  input are the head applied to its first positions and those of the second input the
  head applied to its last positions (text first when \<open>text_first\<close>, mel first
  otherwise); each loss is the cross-entropy of the logits against the targets.
\<close>

theorem forward_returns_losses:
  assumes lim_mel: "int (shape1 mel_inputs) \<le> max_mel_tokens cfg"
    and lim_text: "int (shape1 text_inputs) \<le> max_symbols_per_phrase cfg"
    and lim_total: "int (shape1 mel_inputs) + int (shape1 text_inputs) \<le> max_total_tokens cfg"
    and valid: "valid_forward_input net cfg randperm sci text_inputs mel_inputs wav_lengths"
  shows "\<exists>mel_padded.
           set_mel_padding cfg mel_inputs wav_lengths = Inr mel_padded
         \<and> shape1 mel_padded = shape1 mel_inputs
         \<and> (let c = unsqueeze1 (conditioning_encoder net
                       (randomly_permute_conditioning_input cfg randperm sci));
                 text_in = \<lparr>shape1 = shape1 text_inputs + 1,
                            rows = map (\<lambda>r. start_text_token cfg # r) (rows text_inputs)\<rparr>;
                 text_targets = \<lparr>shape1 = shape1 text_inputs + 1,
                                 rows = map (\<lambda>r. r @ [stop_text_token cfg]) (rows text_inputs)\<rparr>;
                 mel_in = \<lparr>shape1 = shape1 mel_inputs + 1,
                           rows = map (\<lambda>r. start_mel_token cfg # r) (rows mel_padded)\<rparr>;
                 mel_targets = \<lparr>shape1 = shape1 mel_inputs + 1,
                                rows = map (\<lambda>r. r @ [stop_mel_token cfg]) (rows mel_padded)\<rparr>;
                 text_emb = \<lparr>shape1 = shape1 text_in,
                             rows = map (\<lambda>r. map2 (vadd ops) (map (text_embedding net) r)
                                            (map (text_pos_paired_embedding net) (arange (shape1 text_in))))
                                      (rows text_in)\<rparr>;
                 mel_emb = \<lparr>shape1 = shape1 mel_in,
                            rows = map (\<lambda>r. map2 (vadd ops) (map (bottom_gpt_wte net) r)
                                           (map (mel_pos_paired_embedding net) (arange (shape1 mel_in))))
                                     (rows mel_in)\<rparr>;
                 first_emb = (if text_first then text_emb else mel_emb);
                 second_emb = (if text_first then mel_emb else text_emb);
                 emb = \<lparr>shape1 = 1 + shape1 first_emb + shape1 second_emb,
                        rows = map2 (@) (map2 (@) (rows c) (rows first_emb)) (rows second_emb)\<rparr>;
                 enc = final_norm net (slice_from (bottom_gpt net emb) 1);
                 first_enc = slice_upto enc (int (shape1 first_emb));
                 second_enc = slice_from enc (- int (shape1 second_emb));
                 text_logits = permute021 ops (text_head net (if text_first then first_enc else second_enc));
                 mel_logits = permute021 ops (mel_head net (if text_first then second_enc else first_enc))
             in forward net ops cfg randperm sci text_inputs mel_inputs wav_lengths text_first False
                  = Inr (ReturnLosses (cross_entropy ops text_logits text_targets)
                           (cross_entropy ops mel_logits mel_targets)
                           (Logits mel_logits)))"
proof -
  from valid have
    batch: "length (rows mel_inputs) = length (rows text_inputs)"
      "length wav_lengths = length (rows mel_inputs)"
      "length (conditioning_encoder net (randomly_permute_conditioning_input cfg randperm sci))
         = length (rows text_inputs)"
    and sizes: "number_text_tokens cfg \<le> 2 ^ 53" "number_mel_codes cfg \<le> 2 ^ 53"
    and tv: "list_all (list_all (in_vocabulary (number_text_tokens cfg))) (rows text_inputs)"
      "in_vocabulary (number_text_tokens cfg) (start_text_token cfg)"
      "in_vocabulary (number_text_tokens cfg) (stop_text_token cfg)"
    and mv: "list_all (list_all (in_vocabulary (number_mel_codes cfg))) (rows mel_inputs)"
      "in_vocabulary (number_mel_codes cfg) (start_mel_token cfg)"
      "in_vocabulary (number_mel_codes cfg) (stop_mel_token cfg)"
    and comp: "0 < mel_length_compression cfg" "mel_length_compression cfg < 2 ^ 63"
    by (simp_all add: valid_forward_input_def)
  have c64: "int64 (mel_length_compression cfg)" "mel_length_compression cfg \<noteq> 0"
    using comp by (simp_all add: int64_def)
  have s64: "int64 (stop_mel_token cfg)"
    using in_vocabulary_bounds [OF mv(3) sizes(2)] by simp
  from set_mel_padding_vocabulary [OF c64 s64 _ mv(1) mv(3), of wav_lengths] batch(2)
  obtain rs where
    pad: "set_mel_padding cfg mel_inputs wav_lengths = Inr (mel_inputs\<lparr>rows := rs\<rparr>)" and
    rl: "length rs = length (rows mel_inputs)" and
    rv: "list_all (list_all (in_vocabulary (number_mel_codes cfg))) rs"
    by auto
  have bt: "build_aligned_inputs_and_targets text_inputs (start_text_token cfg) (stop_text_token cfg)
      = Inr (\<lparr>shape1 = shape1 text_inputs + 1,
               rows = map (\<lambda>r. start_text_token cfg # r) (rows text_inputs)\<rparr>,
             \<lparr>shape1 = shape1 text_inputs + 1,
               rows = map (\<lambda>r. r @ [stop_text_token cfg]) (rows text_inputs)\<rparr>)"
    using in_vocabulary_bounds [OF tv(2) sizes(1)] in_vocabulary_bounds [OF tv(3) sizes(1)]
    by (simp add: build_aligned_exact)
  have bm: "build_aligned_inputs_and_targets (mel_inputs\<lparr>rows := rs\<rparr>)
        (start_mel_token cfg) (stop_mel_token cfg)
      = Inr (\<lparr>shape1 = shape1 mel_inputs + 1,
               rows = map (\<lambda>r. start_mel_token cfg # r) rs\<rparr>,
             \<lparr>shape1 = shape1 mel_inputs + 1,
               rows = map (\<lambda>r. r @ [stop_mel_token cfg]) rs\<rparr>)"
    using in_vocabulary_bounds [OF mv(2) sizes(2)] in_vocabulary_bounds [OF mv(3) sizes(2)]
    by (simp add: build_aligned_exact)
  have et: "embed_tokens ops (number_text_tokens cfg) (text_embedding net)
        (max_symbols_per_phrase cfg + 1) (text_pos_paired_embedding net)
        \<lparr>shape1 = shape1 text_inputs + 1,
         rows = map (\<lambda>r. start_text_token cfg # r) (rows text_inputs)\<rparr>
      = Inr \<lparr>shape1 = shape1 text_inputs + 1,
             rows = map (\<lambda>r. map2 (vadd ops) (map (text_embedding net) r)
                            (map (text_pos_paired_embedding net) (arange (shape1 text_inputs + 1))))
                      (map (\<lambda>r. start_text_token cfg # r) (rows text_inputs))\<rparr>"
    using tv(1,2) lim_text
    by (simp add: embed_tokens_def embedding_ok embedding_positions_ok add_positions_def
        list_all_iff)
  have em: "embed_tokens ops (number_mel_codes cfg) (bottom_gpt_wte net)
        (max_mel_tokens cfg + 1) (mel_pos_paired_embedding net)
        \<lparr>shape1 = shape1 mel_inputs + 1, rows = map (\<lambda>r. start_mel_token cfg # r) rs\<rparr>
      = Inr \<lparr>shape1 = shape1 mel_inputs + 1,
             rows = map (\<lambda>r. map2 (vadd ops) (map (bottom_gpt_wte net) r)
                            (map (mel_pos_paired_embedding net) (arange (shape1 mel_inputs + 1))))
                      (map (\<lambda>r. start_mel_token cfg # r) rs)\<rparr>"
    using rv mv(2) lim_mel
    by (simp add: embed_tokens_def embedding_ok embedding_positions_ok add_positions_def
        list_all_iff)
  have lt: "list_all (list_all (in_vocabulary (number_text_tokens cfg)))
              (map (\<lambda>r. r @ [stop_text_token cfg]) (rows text_inputs))"
    using tv(1,3) by (simp add: list_all_iff)
  have lm: "list_all (list_all (in_vocabulary (number_mel_codes cfg)))
              (map (\<lambda>r. r @ [stop_mel_token cfg]) rs)"
    using rv mv(3) by (simp add: list_all_iff)
  have fwd: ?thesis if tf: "text_first = v" for v
    using lim_mel lim_text lim_total pad bt bm et em batch rl lt lm
    by (cases v; intro exI [of _ "mel_inputs\<lparr>rows := rs\<rparr>"])
       (simp_all add: tf forward_def encode_conditioning_def get_logits_def cat_dim1_three
         unsqueeze1_def unpack2_def loss_of_ok mean0_def long_def Let_def)
  then show ?thesis by simp
qed

theorem forward_returns_losses_witness:
  "forward toy_modules toy_ops default_config [1, 0] \<lparr>shape2 = 2, channels = [replicate 80 [1, 2]]\<rparr>
     \<lparr>shape1 = 2, rows = [[5, 6]]\<rparr> \<lparr>shape1 = 3, rows = [[7, 8, 9]]\<rparr> [1024] True False
   = Inr (ReturnLosses 277 32801 (Logits [[8192, 7, 8, 8193]]))"
proof -
  let ?sci = "\<lparr>shape2 = 2, channels = [replicate 80 [1, 2 :: int]]\<rparr>"
  let ?text = "\<lparr>shape1 = 2, rows = [[5, 6 :: int]]\<rparr>"
  let ?mel = "\<lparr>shape1 = 3, rows = [[7, 8, 9 :: int]]\<rparr>"
  have 1: "int (shape1 ?mel) \<le> max_mel_tokens default_config"
    and 2: "int (shape1 ?text) \<le> max_symbols_per_phrase default_config"
    and 3: "int (shape1 ?mel) + int (shape1 ?text) \<le> max_total_tokens default_config"
    by (simp_all add: default_config_eq)
  have 4: "valid_forward_input toy_modules default_config [1, 0] ?sci ?text ?mel [1024]"
    by (simp add: valid_forward_input_def default_config_eq rectangular_def in_vocabulary_def
        toy_modules_def randomly_permute_conditioning_input_def index_last_def upt_rec
        list_all_iff)
  have pad: "set_mel_padding default_config ?mel [1024] = Inr \<lparr>shape1 = 3, rows = [[7, 8, 8193]]\<rparr>"
    by (simp add: set_mel_padding_def torch_floordiv_def default_config_eq fill_from_def
        slice_index_def int64_def wrap64_def)
  from forward_returns_losses [of ?mel default_config ?text toy_modules "[1, 0]" ?sci "[1024]"
      toy_ops True, OF 1 2 3 4]
  show ?thesis
    by (auto simp: pad [unfolded default_config_eq] Let_def toy_modules_def toy_ops_def default_config_eq unsqueeze1_def
        randomly_permute_conditioning_input_def index_last_def arange_def slice_from_def
        slice_upto_def slice_index_def upt_rec)
qed

lemma get_logits_ignores_top_level:
  "get_logits (net\<lparr>top_encoder := e, top_gpt := g, top_gpt_start_embedding := s\<rparr>) ops c f h snd_in ga
     = get_logits net ops c f h snd_in ga"
  by (cases ga) (simp_all add: get_logits_def Let_def)

text \<open>
  C4. The claim is that the outputs of \<open>forward\<close> depend on the top-level model. In the
  code \<open>forward\<close> never calls \<open>get_top_embeddings\<close> or \<open>inject_top_embeddings\<close>: whatever
  the top encoder, the top GPT and its start embedding are replaced by, the result is
  the same on every input.
\<close>

theorem forward_ignores_top_level:
  "forward (net\<lparr>top_encoder := e, top_gpt := g, top_gpt_start_embedding := s\<rparr>) ops cfg randperm
      speech_conditioning_input text_inputs mel_inputs wav_lengths text_first return_attentions
   = forward net ops cfg randperm
      speech_conditioning_input text_inputs mel_inputs wav_lengths text_first return_attentions"
  by (cases text_first)
     (simp_all add: forward_def encode_conditioning_def get_logits_ignores_top_level)

theorem forward_ignores_top_level_witness:
  "forward (toy_modules\<lparr>top_encoder := (\<lambda>t. t\<lparr>rows := []\<rparr>), top_gpt := (\<lambda>t. t\<lparr>shape1 := 0\<rparr>),
                        top_gpt_start_embedding := 42\<rparr>)
     toy_ops default_config [1, 0] \<lparr>shape2 = 2, channels = [[[1, 2]]]\<rparr>
     \<lparr>shape1 = 2, rows = [[5, 6]]\<rparr> \<lparr>shape1 = 3, rows = [[7, 8, 9]]\<rparr> [1024] True False
   = forward toy_modules toy_ops default_config [1, 0] \<lparr>shape2 = 2, channels = [[[1, 2]]]\<rparr>
     \<lparr>shape1 = 2, rows = [[5, 6]]\<rparr> \<lparr>shape1 = 3, rows = [[7, 8, 9]]\<rparr> [1024] True False"
  by (rule forward_ignores_top_level)

subsection \<open>is\_latent and is\_sequence\<close>

text \<open>
  C7 (as amended). \<open>is_latent\<close> holds exactly of the tensors of dtype float32
  (\<^verbatim>\<open>torch.float\<close>) and \<open>is_sequence\<close> exactly of those of dtype int64 (\<^verbatim>\<open>torch.long\<close>); so a
  latent has a floating-point dtype and a sequence an integer dtype, but not conversely.
\<close>

theorem is_latent_is_sequence_exact_dtype:
  "(is_latent t \<longleftrightarrow> dtype t = torch_float32)
   \<and> (is_sequence t \<longleftrightarrow> dtype t = torch_int64)
   \<and> (is_latent t \<longrightarrow> is_floating_point (dtype t))
   \<and> (is_sequence t \<longrightarrow> is_integer_dtype (dtype t))"
  by (simp add: is_latent_def is_sequence_def torch_float_def torch_long_def)

theorem is_latent_is_sequence_exact_dtype_witness:
  "is_latent \<lparr>dtype = torch_float32, storage = ()\<rparr>
   \<and> is_floating_point (dtype \<lparr>dtype = torch_float32, storage = ()\<rparr>)
   \<and> is_sequence \<lparr>dtype = torch_int64, storage = ()\<rparr>
   \<and> is_integer_dtype (dtype \<lparr>dtype = torch_int64, storage = ()\<rparr>)"
  using is_latent_is_sequence_exact_dtype [of "\<lparr>dtype = torch_float32, storage = ()\<rparr>"]
    is_latent_is_sequence_exact_dtype [of "\<lparr>dtype = torch_int64, storage = ()\<rparr>"]
  by simp

text \<open>
  Tensors of dtype float64 and float16 are floating-point and are not latents; a tensor
  of dtype int32 is integer-typed and is not a sequence.
\<close>

theorem is_latent_double_counterexample:
  "is_floating_point (dtype \<lparr>dtype = torch_float64, storage = ()\<rparr>)
   \<and> \<not> is_latent \<lparr>dtype = torch_float64, storage = ()\<rparr>
   \<and> is_floating_point (dtype \<lparr>dtype = torch_float16, storage = ()\<rparr>)
   \<and> \<not> is_latent \<lparr>dtype = torch_float16, storage = ()\<rparr>
   \<and> is_integer_dtype (dtype \<lparr>dtype = torch_int32, storage = ()\<rparr>)
   \<and> \<not> is_sequence \<lparr>dtype = torch_int32, storage = ()\<rparr>"
  by (simp add: is_latent_def is_sequence_def torch_float_def torch_long_def)

subsection \<open>TransformerDiffusion.forward\<close>

lemma timestep_independent_no_assertion:
  "timestep_independent self fns rand prior n \<noteq> Inl (AssertionError msg)"
  by (simp add: timestep_independent_def Let_def split: option.splits)


text \<open>
  C5. \<open>TransformerDiffusion.forward\<close> raises an AssertionError exactly when
  \<open>precomputed_code_embeddings\<close> is given together with \<open>codes\<close> or \<open>conditioning_input\<close>.
\<close>

theorem TransformerDiffusion_forward_assertion:
  "(\<exists>msg. TransformerDiffusion_forward self fns rand x timesteps codes conditioning_input
             precomputed_code_embeddings conditioning_free = Inl (AssertionError msg))
   \<longleftrightarrow> (precomputed_code_embeddings \<noteq> None \<and> (codes \<noteq> None \<or> conditioning_input \<noteq> None))"
proof (cases "precomputed_code_embeddings \<noteq> None \<and> (codes \<noteq> None \<or> conditioning_input \<noteq> None)")
  case True
  then show ?thesis by (auto simp: TransformerDiffusion_forward_def)
next
  case False
  then have "TransformerDiffusion_forward self fns rand x timesteps codes conditioning_input
             precomputed_code_embeddings conditioning_free \<noteq> Inl (AssertionError msg)" for msg
    using timestep_independent_no_assertion [of self fns rand codes "shape_last fns x" msg]
    by (cases conditioning_free; cases precomputed_code_embeddings)
       (auto simp: TransformerDiffusion_forward_def bind_err_Inl Let_def)
  with False show ?thesis by blast
qed

theorem TransformerDiffusion_forward_assertion_witness:
  "(\<exists>msg. TransformerDiffusion_forward toy_diffusion toy_fns (\<lambda>b. 0) 1 2 (Some 3) None (Some 4) False
            = Inl (AssertionError msg))
   \<and> TransformerDiffusion_forward toy_diffusion toy_fns (\<lambda>b. 0) 1 2 None None (Some 4) False = Inr 14"
proof -
  have "(Some (4::real)) \<noteq> None \<and> (Some (3::real) \<noteq> None \<or> (None :: real option) \<noteq> None)"
    by simp
  then have "\<exists>msg. TransformerDiffusion_forward toy_diffusion toy_fns (\<lambda>b. 0) 1 2 (Some 3) None (Some 4) False
            = Inl (AssertionError msg)"
    using TransformerDiffusion_forward_assertion
      [of toy_diffusion toy_fns "\<lambda>b. 0" 1 2 "Some 3" None "Some 4" False]
    by simp
  moreover have "TransformerDiffusion_forward toy_diffusion toy_fns (\<lambda>b. 0) 1 2 None None (Some 4) False = Inr 14"
    by (simp add: TransformerDiffusion_forward_def toy_diffusion_def toy_fns_def num_add_def
        num_times_int_def tensor_plus_def)
  ultimately show ?thesis by blast
qed

subsection \<open>TransformerDiffusionWithQuantizer\<close>






subsection \<open>update\_for\_step\<close>









end
